theory Spec2Isabelle
  imports Complex_Main "HOL-Library.AList" "HOL-Library.Monad_Syntax" "HOL-Library.Multiset"
begin

section \<open>Values\<close>

text \<open>
  The handlers of \<^verbatim>\<open>app.py\<close> build, write, read back and aggregate Python values
  that come from or go to JSON text: \<^verbatim>\<open>None\<close>, booleans, integers, floats,
  strings, lists and dictionaries with string keys. A dictionary is an association list
  in insertion order whose keys are pairwise different; \<^verbatim>\<open>d.get(k)\<close> is
  \<open>map_of\<close>. Python's \<^verbatim>\<open>int\<close> is unbounded, so it is \<^typ>\<open>int\<close>.

  Nothing in the program computes with the bits of a float, so the type of floats is the
  parameter \<open>'f\<close>, and the three operations on floats that the aggregation can reach are
  fields of the library record below. A \<^typ>\<open>string\<close> stands for a Python
  \<^verbatim>\<open>str\<close> whose code points are below 256, one \<^typ>\<open>char\<close> per code point.
\<close>

datatype 'f json =
    JNull
  | JBool bool
  | JInt int
  | JFloat 'f
  | JStr string
  | JArr "'f json list"
  | JObj "(string \<times> 'f json) list"

text \<open>The exceptions that the bodies of the handlers can raise.\<close>

datatype exc = KeyError | TypeError | AttributeError | OverflowError | JSONDecodeError

text \<open>
  What a handler raises to the framework: \<^verbatim>\<open>HTTPException(status_code, detail)\<close>, or the
  framework's own rejection of a body that does not fit the declared request model, which
  it answers with status 422 before the handler runs.
\<close>

datatype http_error = HTTPException nat string | RequestValidationError

fun status_code :: "http_error \<Rightarrow> nat" where
  "status_code (HTTPException c d) = c"
| "status_code RequestValidationError = 422"

definition client_error :: "http_error \<Rightarrow> bool" where
  "client_error e = (400 \<le> status_code e \<and> status_code e < 500)"

definition server_error :: "http_error \<Rightarrow> bool" where
  "server_error e = (500 \<le> status_code e \<and> status_code e < 600)"

text \<open>
  The library functions that the source calls and that are not part of the repository:
  \<^verbatim>\<open>json.dumps\<close>, \<^verbatim>\<open>json.loads\<close> (\<open>None\<close> when it raises), float addition,
  \<^verbatim>\<open>float(i)\<close> for an integer (\<open>None\<close> when it raises OverflowError), the integer a
  float is equal to, if any (this decides \<^verbatim>\<open>1 == 1.0\<close> in a set),
  \<^verbatim>\<open>str(e)\<close> of an HTTPException, which depends on the framework's version, and the
  validators of the request models for a field declared \<^verbatim>\<open>str\<close>, \<^verbatim>\<open>int\<close> or
  \<^verbatim>\<open>float\<close> (\<open>None\<close> when the value is rejected; which values are coerced depends
  on the version of the validation library).
\<close>

record 'f library =
  json_dumps :: "'f json \<Rightarrow> string"
  json_loads :: "string \<Rightarrow> 'f json option"
  float_add :: "'f \<Rightarrow> 'f \<Rightarrow> 'f"
  float_of_int :: "int \<Rightarrow> 'f option"
  float_as_int :: "'f \<Rightarrow> int option"
  exception_str :: "http_error \<Rightarrow> string"
  validate_str :: "'f json \<Rightarrow> string option"
  validate_int :: "'f json \<Rightarrow> int option"
  validate_float :: "'f json \<Rightarrow> 'f option"


section \<open>Data models\<close>

record 'f MonitoringMetadata =
  framesProcessed :: int
  peopleDetected :: int
  processingTimeSeconds :: 'f
  videoSource :: string
  inferenceTimeMs :: 'f
  totalDetections :: int

record 'f SummaryLogRequest =
  session_id :: string
  summary :: string
  metadata :: "'f MonitoringMetadata"
  timestamp :: "string option"

record SummaryLogResponse =
  status :: string
  message :: string
  log_id :: string
  timestamp :: string

text \<open>\<^verbatim>\<open>request.metadata.dict()\<close>: the fields in their order of declaration.\<close>

definition metadata_dict :: "'f MonitoringMetadata \<Rightarrow> 'f json" where
  "metadata_dict m = JObj
     [(''framesProcessed'', JInt (framesProcessed m)),
      (''peopleDetected'', JInt (peopleDetected m)),
      (''processingTimeSeconds'', JFloat (processingTimeSeconds m)),
      (''videoSource'', JStr (videoSource m)),
      (''inferenceTimeMs'', JFloat (inferenceTimeMs m)),
      (''totalDetections'', JInt (totalDetections m))]"


section \<open>Clock and file names\<close>

text \<open>
  A reading of \<^verbatim>\<open>datetime.now()\<close>: a naive local time. \<^verbatim>\<open>isoformat()\<close> prints
  \<^verbatim>\<open>%04d-%02d-%02dT%02d:%02d:%02d\<close> and, when the microsecond is not zero,
  \<^verbatim>\<open>.%06d\<close>; \<^verbatim>\<open>strftime("%Y-%m-%d")\<close> prints the date part. Every field of a
  datetime is below the power of ten of its width, so a fixed number of digits is exact.
\<close>

record datetime =
  year :: nat
  month :: nat
  day :: nat
  hour :: nat
  minute :: nat
  second :: nat
  microsecond :: nat

fun zero_padded :: "nat \<Rightarrow> nat \<Rightarrow> string" where
  "zero_padded 0 n = []"
| "zero_padded (Suc w) n = zero_padded w (n div 10) @ [''0123456789'' ! (n mod 10)]"

definition strftime_Ymd :: "datetime \<Rightarrow> string" where
  "strftime_Ymd t =
     zero_padded 4 (year t) @ ''-'' @ zero_padded 2 (month t) @ ''-'' @ zero_padded 2 (day t)"

definition isoformat :: "datetime \<Rightarrow> string" where
  "isoformat t =
     strftime_Ymd t @ ''T'' @
     zero_padded 2 (hour t) @ '':'' @ zero_padded 2 (minute t) @ '':'' @ zero_padded 2 (second t) @
     (if microsecond t = 0 then [] else ''.'' @ zero_padded 6 (microsecond t))"

text \<open>\<^verbatim>\<open>get_log_filename\<close>, given the clock reading it makes.\<close>

definition get_log_filename :: "datetime \<Rightarrow> string" where
  "get_log_filename now = ''logs/monitoring_logs_'' @ strftime_Ymd now @ ''.jsonl''"


section \<open>The log directory\<close>

text \<open>
  The files of the directory \<^verbatim>\<open>logs\<close>: a map from file name to the text of the file.
  \<^verbatim>\<open>os.path.exists\<close> is membership in the domain. A text file opened for reading is
  iterated line by line with universal newlines: a line ends at \<^verbatim>\<open>\n\<close>, \<^verbatim>\<open>\r\n\<close> or
  \<^verbatim>\<open>\r\<close>, each handed over as \<^verbatim>\<open>\n\<close>, and a last line without an end is handed over
  as it is.
\<close>

type_synonym files = "string \<rightharpoonup> string"

fun readlines_from :: "string \<Rightarrow> string \<Rightarrow> string list" where
  "readlines_from cur [] = (if cur = [] then [] else [cur])"
| "readlines_from cur (c # cs) =
     (if c = CHR 0x0A then (cur @ [CHR 0x0A]) # readlines_from [] cs
      else if c = CHR 0x0D then
        (case cs of
           c' # cs' \<Rightarrow>
             if c' = CHR 0x0A then (cur @ [CHR 0x0A]) # readlines_from [] cs'
             else (cur @ [CHR 0x0A]) # readlines_from [] cs
         | [] \<Rightarrow> [cur @ [CHR 0x0A]])
      else readlines_from (cur @ [c]) cs)"

definition readlines :: "string \<Rightarrow> string list" where
  "readlines text = readlines_from [] text"

text \<open>
  \<^verbatim>\<open>line.strip()\<close> is true when the line has a character that is not white space.
  Below 256 the white space of \<^verbatim>\<open>str.strip\<close> is 9 to 13, 28 to 32, 133 and 160.
\<close>

definition py_isspace :: "char \<Rightarrow> bool" where
  "py_isspace c =
     (let n = (of_char c :: nat)
      in (9 \<le> n \<and> n \<le> 13) \<or> (28 \<le> n \<and> n \<le> 32) \<or> n = 133 \<or> n = 160)"

definition nonblank :: "string \<Rightarrow> bool" where
  "nonblank line = list_ex (\<lambda>c. \<not> py_isspace c) line"


section \<open>Request validation\<close>

text \<open>
  The route is declared with a parameter of type \<^verbatim>\<open>SummaryLogRequest\<close>, so the framework
  builds the request from the JSON body before it calls the handler. A field declared
  without a default is required; \<^verbatim>\<open>timestamp: Optional[str] = None\<close> may be missing
  or null; keys that the model does not declare are ignored.
\<close>

definition required :: "(string \<times> 'f json) list \<Rightarrow> string \<Rightarrow> ('f json \<Rightarrow> 'a option) \<Rightarrow> 'a option" where
  "required d k validate = (case map_of d k of None \<Rightarrow> None | Some v \<Rightarrow> validate v)"

definition optional :: "(string \<times> 'f json) list \<Rightarrow> string \<Rightarrow> ('f json \<Rightarrow> 'a option) \<Rightarrow> 'a option option" where
  "optional d k validate =
     (case map_of d k of
        None \<Rightarrow> Some None
      | Some JNull \<Rightarrow> Some None
      | Some v \<Rightarrow> (case validate v of None \<Rightarrow> None | Some x \<Rightarrow> Some (Some x)))"

definition parse_MonitoringMetadata :: "'f library \<Rightarrow> 'f json \<Rightarrow> 'f MonitoringMetadata option" where
  "parse_MonitoringMetadata L v =
     (case v of
        JObj d \<Rightarrow> do {
          fp \<leftarrow> required d ''framesProcessed'' (validate_int L);
          pd \<leftarrow> required d ''peopleDetected'' (validate_int L);
          pts \<leftarrow> required d ''processingTimeSeconds'' (validate_float L);
          vs \<leftarrow> required d ''videoSource'' (validate_str L);
          itm \<leftarrow> required d ''inferenceTimeMs'' (validate_float L);
          td \<leftarrow> required d ''totalDetections'' (validate_int L);
          Some \<lparr>framesProcessed = fp, peopleDetected = pd, processingTimeSeconds = pts,
                videoSource = vs, inferenceTimeMs = itm, totalDetections = td\<rparr>
        }
      | _ \<Rightarrow> None)"

definition parse_SummaryLogRequest :: "'f library \<Rightarrow> 'f json \<Rightarrow> 'f SummaryLogRequest option" where
  "parse_SummaryLogRequest L body =
     (case body of
        JObj d \<Rightarrow> do {
          sid \<leftarrow> required d ''session_id'' (validate_str L);
          sm \<leftarrow> required d ''summary'' (validate_str L);
          md \<leftarrow> required d ''metadata'' (parse_MonitoringMetadata L);
          ts \<leftarrow> optional d ''timestamp'' (validate_str L);
          Some \<lparr>session_id = sid, summary = sm, metadata = md, timestamp = ts\<rparr>
        }
      | _ \<Rightarrow> None)"


section \<open>Appending a record\<close>

text \<open>
  What one call of \<^verbatim>\<open>log_summary\<close> takes from its environment: the UUID it draws, the
  clock reading of line 110 (made only when the request's timestamp is falsy), the readings
  of \<^verbatim>\<open>get_log_filename\<close> and of line 69 inside \<^verbatim>\<open>log_to_file\<close>, and whether opening
  the file and writing to it go through. When they do not, \<^verbatim>\<open>log_to_file\<close> catches the
  exception and returns \<^verbatim>\<open>False\<close>; the file is then taken to be as it was.
\<close>

record call_env =
  uuid4 :: string
  now_request :: datetime
  now_filename :: datetime
  now_persist :: datetime
  write_ok :: bool

text \<open>\<^verbatim>\<open>a or b\<close> for an optional string: \<^verbatim>\<open>None\<close> and the empty string are falsy.\<close>

definition py_or :: "string option \<Rightarrow> string \<Rightarrow> string" where
  "py_or a b = (case a of None \<Rightarrow> b | Some s \<Rightarrow> if s = [] then b else s)"

definition optional_str :: "string option \<Rightarrow> 'f json" where
  "optional_str a = (case a of None \<Rightarrow> JNull | Some s \<Rightarrow> JStr s)"

text \<open>
  \<^verbatim>\<open>log_to_file\<close>: \<^verbatim>\<open>data["server_timestamp"] = ...\<close> replaces the value of the key or
  adds the key at the end; opening with mode \<^verbatim>\<open>"a"\<close> creates a missing file and writes at
  the end of an existing one.
\<close>

definition log_to_file :: "'f library \<Rightarrow> call_env \<Rightarrow> (string \<times> 'f json) list \<Rightarrow> files \<Rightarrow> bool \<times> files" where
  "log_to_file L env data fs =
     (let log_filename = get_log_filename (now_filename env);
          data' = AList.update ''server_timestamp'' (JStr (isoformat (now_persist env))) data
      in if write_ok env
         then (True,
               fs(log_filename \<mapsto>
                    (case fs log_filename of None \<Rightarrow> [] | Some text \<Rightarrow> text)
                    @ json_dumps L (JObj data') @ [CHR 0x0A]))
         else (False, fs))"

definition log_data :: "call_env \<Rightarrow> 'f SummaryLogRequest \<Rightarrow> (string \<times> 'f json) list" where
  "log_data env request =
     [(''log_id'', JStr (uuid4 env)),
      (''session_id'', JStr (session_id request)),
      (''client_timestamp'', optional_str (SummaryLogRequest.timestamp request)),
      (''summary'', JStr (summary request)),
      (''metadata'', metadata_dict (metadata request)),
      (''timestamp'',
         JStr (py_or (SummaryLogRequest.timestamp request) (isoformat (now_request env))))]"

text \<open>
  \<^verbatim>\<open>log_summary\<close>. The HTTPException raised in the \<^verbatim>\<open>else\<close> branch is raised inside
  the \<^verbatim>\<open>try\<close>, so the \<^verbatim>\<open>except Exception\<close> clause catches it and raises the one the
  caller sees.
\<close>

definition log_summary ::
  "'f library \<Rightarrow> call_env \<Rightarrow> 'f SummaryLogRequest \<Rightarrow> files \<Rightarrow> (http_error + SummaryLogResponse) \<times> files" where
  "log_summary L env request fs =
     (let (ok, fs') = log_to_file L env (log_data env request) fs
      in if ok
         then (Inr \<lparr>status = ''success'', message = ''Summary logged successfully'',
                    log_id = uuid4 env,
                    timestamp = py_or (SummaryLogRequest.timestamp request) (isoformat (now_request env))\<rparr>,
               fs')
         else (Inl (HTTPException 500
                      (''Internal server error: '' @
                       exception_str L (HTTPException 500 ''Failed to log summary to file''))),
               fs'))"

text \<open>The route \<^verbatim>\<open>POST /api/log-summary\<close>: validation, then the handler.\<close>

definition post_log_summary ::
  "'f library \<Rightarrow> call_env \<Rightarrow> 'f json \<Rightarrow> files \<Rightarrow> (http_error + SummaryLogResponse) \<times> files" where
  "post_log_summary L env body fs =
     (case parse_SummaryLogRequest L body of
        None \<Rightarrow> (Inl RequestValidationError, fs)
      | Some request \<Rightarrow> log_summary L env request fs)"


section \<open>Reading the day's records\<close>

text \<open>The loop of \<^verbatim>\<open>get_today_logs\<close> over the lines, with the list it appends to.\<close>

fun read_logs :: "'f library \<Rightarrow> 'f json list \<Rightarrow> string list \<Rightarrow> exc + 'f json list" where
  "read_logs L logs [] = Inr logs"
| "read_logs L logs (line # lines) =
     (if nonblank line
      then (case json_loads L line of
              None \<Rightarrow> Inl JSONDecodeError
            | Some v \<Rightarrow> read_logs L (logs @ [v]) lines)
      else read_logs L logs lines)"

definition get_today_logs :: "'f library \<Rightarrow> datetime \<Rightarrow> files \<Rightarrow> (http_error + 'f json) \<times> files" where
  "get_today_logs L now fs =
     (let log_filename = get_log_filename now
      in case fs log_filename of
           None \<Rightarrow> (Inr (JObj [(''logs'', JArr []), (''message'', JStr ''No logs for today'')]), fs)
         | Some text \<Rightarrow>
             (case read_logs L [] (readlines text) of
                Inl e \<Rightarrow> (Inl (HTTPException 500 ''Failed to read logs''), fs)
              | Inr logs \<Rightarrow>
                  (Inr (JObj [(''logs'', JArr logs),
                              (''count'', JInt (int (length logs))),
                              (''log_file'', JStr log_filename)]), fs)))"


section \<open>Statistics\<close>

text \<open>
  \<^verbatim>\<open>log_entry["session_id"]\<close>: a dictionary without the key raises KeyError, a list, a
  string or any other value raises TypeError.
\<close>

definition getitem :: "'f json \<Rightarrow> string \<Rightarrow> exc + 'f json" where
  "getitem v k =
     (case v of
        JObj d \<Rightarrow> (case map_of d k of None \<Rightarrow> Inl KeyError | Some x \<Rightarrow> Inr x)
      | _ \<Rightarrow> Inl TypeError)"

text \<open>\<^verbatim>\<open>v.get(k, d)\<close>: only a dictionary has the method.\<close>

definition dict_get :: "'f json \<Rightarrow> string \<Rightarrow> 'f json \<Rightarrow> exc + 'f json" where
  "dict_get v k dflt =
     (case v of
        JObj d \<Rightarrow> (case map_of d k of None \<Rightarrow> Inr dflt | Some x \<Rightarrow> Inr x)
      | _ \<Rightarrow> Inl AttributeError)"

text \<open>
  The element that \<^verbatim>\<open>sessions.add(v)\<close> puts into the set. Lists and dictionaries are
  unhashable. Python's set holds one of several equal values, and \<^verbatim>\<open>True == 1 == 1.0\<close>,
  so a boolean and a float with an integral value are represented by the integer.
\<close>

definition set_element :: "'f library \<Rightarrow> 'f json \<Rightarrow> exc + 'f json" where
  "set_element L v =
     (case v of
        JArr xs \<Rightarrow> Inl TypeError
      | JObj d \<Rightarrow> Inl TypeError
      | JBool b \<Rightarrow> Inr (JInt (if b then 1 else 0))
      | JFloat x \<Rightarrow> Inr (case float_as_int L x of None \<Rightarrow> JFloat x | Some i \<Rightarrow> JInt i)
      | _ \<Rightarrow> Inr v)"

text \<open>
  \<^verbatim>\<open>a + b\<close> where \<open>a\<close> is a running total: integers (a boolean is an integer) add
  exactly, an integer meeting a float is converted first, anything else raises TypeError.
\<close>

datatype 'f number = Integer int | Float 'f

definition as_number :: "'f json \<Rightarrow> 'f number option" where
  "as_number v =
     (case v of
        JInt i \<Rightarrow> Some (Integer i)
      | JBool b \<Rightarrow> Some (Integer (if b then 1 else 0))
      | JFloat x \<Rightarrow> Some (Float x)
      | _ \<Rightarrow> None)"

definition py_add :: "'f library \<Rightarrow> 'f json \<Rightarrow> 'f json \<Rightarrow> exc + 'f json" where
  "py_add L a b =
     (case (as_number a, as_number b) of
        (Some (Integer i), Some (Integer j)) \<Rightarrow> Inr (JInt (i + j))
      | (Some (Integer i), Some (Float y)) \<Rightarrow>
          (case float_of_int L i of None \<Rightarrow> Inl OverflowError | Some x \<Rightarrow> Inr (JFloat (float_add L x y)))
      | (Some (Float x), Some (Integer j)) \<Rightarrow>
          (case float_of_int L j of None \<Rightarrow> Inl OverflowError | Some y \<Rightarrow> Inr (JFloat (float_add L x y)))
      | (Some (Float x), Some (Float y)) \<Rightarrow> Inr (JFloat (float_add L x y))
      | _ \<Rightarrow> Inl TypeError)"

text \<open>The four variables of \<^verbatim>\<open>get_stats\<close> and the body of its loop for one parsed line.\<close>

record 'f stats =
  total_logs :: int
  total_frames :: "'f json"
  total_people :: "'f json"
  sessions :: "'f json set"

definition stats_init :: "'f stats" where
  "stats_init = \<lparr>total_logs = 0, total_frames = JInt 0, total_people = JInt 0, sessions = {}\<rparr>"

definition stats_entry :: "'f library \<Rightarrow> 'f stats \<Rightarrow> 'f json \<Rightarrow> exc + 'f stats" where
  "stats_entry L st log_entry =
     (case getitem log_entry ''session_id'' of Inl e \<Rightarrow> Inl e | Inr sid \<Rightarrow>
      case set_element L sid of Inl e \<Rightarrow> Inl e | Inr el \<Rightarrow>
      case dict_get log_entry ''metadata'' (JObj []) of Inl e \<Rightarrow> Inl e | Inr metadata' \<Rightarrow>
      case dict_get metadata' ''frames_processed'' (JInt 0) of Inl e \<Rightarrow> Inl e | Inr frames \<Rightarrow>
      case py_add L (total_frames st) frames of Inl e \<Rightarrow> Inl e | Inr total_frames' \<Rightarrow>
      case dict_get metadata' ''people_detected'' (JInt 0) of Inl e \<Rightarrow> Inl e | Inr people \<Rightarrow>
      case py_add L (total_people st) people of Inl e \<Rightarrow> Inl e | Inr total_people' \<Rightarrow>
        Inr \<lparr>total_logs = total_logs st + 1, total_frames = total_frames',
             total_people = total_people', sessions = insert el (sessions st)\<rparr>)"

fun stats_loop :: "'f library \<Rightarrow> 'f stats \<Rightarrow> string list \<Rightarrow> exc + 'f stats" where
  "stats_loop L st [] = Inr st"
| "stats_loop L st (line # lines) =
     (if nonblank line
      then (case json_loads L line of
              None \<Rightarrow> Inl JSONDecodeError
            | Some log_entry \<Rightarrow>
                (case stats_entry L st log_entry of
                   Inl e \<Rightarrow> Inl e
                 | Inr st' \<Rightarrow> stats_loop L st' lines))
      else stats_loop L st lines)"

definition get_stats :: "'f library \<Rightarrow> datetime \<Rightarrow> files \<Rightarrow> (http_error + 'f json) \<times> files" where
  "get_stats L now fs =
     (let log_filename = get_log_filename now
      in case fs log_filename of
           None \<Rightarrow> (Inr (JObj [(''message'', JStr ''No logs for today''), (''stats'', JObj [])]), fs)
         | Some text \<Rightarrow>
             (case stats_loop L stats_init (readlines text) of
                Inl e \<Rightarrow> (Inl (HTTPException 500 ''Failed to calculate stats''), fs)
              | Inr st \<Rightarrow>
                  (Inr (JObj [(''stats'',
                               JObj [(''total_logs'', JInt (total_logs st)),
                                     (''unique_sessions'', JInt (int (card (sessions st)))),
                                     (''total_frames_processed'', total_frames st),
                                     (''total_people_detected'', total_people st)]),
                              (''log_file'', JStr log_filename)]), fs)))"

text \<open>Reading a field of the \<^verbatim>\<open>stats\<close> object of a response, and a field of a record.\<close>

definition get_field :: "'f json \<Rightarrow> string \<Rightarrow> 'f json option" where
  "get_field v k = (case v of JObj d \<Rightarrow> map_of d k | _ \<Rightarrow> None)"

definition stats_field :: "(http_error + 'f json) \<Rightarrow> string \<Rightarrow> 'f json option" where
  "stats_field r k =
     (case r of
        Inl e \<Rightarrow> None
      | Inr v \<Rightarrow> (case get_field v ''stats'' of None \<Rightarrow> None | Some s \<Rightarrow> get_field s k))"


section \<open>Notions for the statements\<close>

text \<open>
  The dictionary that \<^verbatim>\<open>log_to_file\<close> serialises for a call of \<^verbatim>\<open>log_summary\<close>: the
  handler's \<^verbatim>\<open>log_data\<close> with the server's timestamp added.
\<close>

definition written_record :: "call_env \<Rightarrow> 'f SummaryLogRequest \<Rightarrow> (string \<times> 'f json) list" where
  "written_record env request =
     AList.update ''server_timestamp'' (JStr (isoformat (now_persist env))) (log_data env request)"


text \<open>
  A text of complete lines, each ended by a newline, and the texts that are one line when a
  newline is put after them: they hold no line end themselves.
\<close>

definition join_lines :: "string list \<Rightarrow> string" where
  "join_lines ls = concat (map (\<lambda>l. l @ [CHR 0x0A]) ls)"

definition one_line :: "string \<Rightarrow> bool" where
  "one_line l = (CHR 0x0A \<notin> set l \<and> CHR 0x0D \<notin> set l)"

text \<open>
  The element that a parsed line contributes to the set of sessions, and the elements of
  a list of parsed lines (of those that have one).
\<close>

definition session_key :: "'f library \<Rightarrow> 'f json \<Rightarrow> exc + 'f json" where
  "session_key L log_entry =
     (case getitem log_entry ''session_id'' of Inl e \<Rightarrow> Inl e | Inr sid \<Rightarrow> set_element L sid)"

definition session_values :: "'f library \<Rightarrow> 'f json list \<Rightarrow> 'f json list" where
  "session_values L vs =
     concat (map (\<lambda>v. case session_key L v of Inl e \<Rightarrow> [] | Inr el \<Rightarrow> [el]) vs)"

text \<open>The loop of \<^verbatim>\<open>get_stats\<close> on the lines already parsed.\<close>

fun stats_entries :: "'f library \<Rightarrow> 'f stats \<Rightarrow> 'f json list \<Rightarrow> exc + 'f stats" where
  "stats_entries L st [] = Inr st"
| "stats_entries L st (v # vs) =
     (case stats_entry L st v of Inl e \<Rightarrow> Inl e | Inr st' \<Rightarrow> stats_entries L st' vs)"

text \<open>
  What the handlers need from the serialiser and the parser for a value \<open>v\<close>:
  \<^verbatim>\<open>json.dumps(v)\<close> holds no line end (it escapes them inside strings) and is not
  blank, and \<^verbatim>\<open>json.loads\<close> reads the line written for \<open>v\<close> back as \<open>v\<close>.
\<close>

definition round_trip :: "'f library \<Rightarrow> 'f json \<Rightarrow> bool" where
  "round_trip L v =
     (one_line (json_dumps L v) \<and> nonblank (json_dumps L v @ [CHR 0x0A]) \<and>
      json_loads L (json_dumps L v @ [CHR 0x0A]) = Some v)"

text \<open>
  The directory after a sequence of calls of \<^verbatim>\<open>log_summary\<close>, each with its
  environment and request, and the calls of a sequence that write to a given file.
\<close>

fun log_summaries :: "'f library \<Rightarrow> (call_env \<times> 'f SummaryLogRequest) list \<Rightarrow> files \<Rightarrow> files" where
  "log_summaries L [] fs = fs"
| "log_summaries L ((env, request) # calls) fs =
     log_summaries L calls (snd (log_summary L env request fs))"

definition written_to :: "string \<Rightarrow> call_env \<times> 'f SummaryLogRequest \<Rightarrow> bool" where
  "written_to log_filename c =
     (case c of (env, request) \<Rightarrow>
        write_ok env \<and> get_log_filename (now_filename env) = log_filename)"

text \<open>A text that is empty or ends with a line end, so that what is appended starts a line.\<close>

definition terminated :: "string \<Rightarrow> bool" where
  "terminated text = (text = [] \<or> last text = CHR 0x0A \<or> last text = CHR 0x0D)"


section \<open>A concrete environment\<close>

text \<open>
  The statements below are evaluated on these inputs: a clock reading, a call environment
  for a given UUID, a request for a given session and timestamp, and a library whose
  serialiser and parser are the finite table of what \<^verbatim>\<open>json.dumps\<close> and
  \<^verbatim>\<open>json.loads\<close> give on the records and lines of the examples (no example reads
  the table elsewhere). Its floats are rationals, added exactly, which is what float
  addition does on the small values used.
\<close>

definition example_now :: datetime where
  "example_now = \<lparr>year = 2026, month = 11, day = 4, hour = 9, minute = 5, second = 7, microsecond = 0\<rparr>"

definition example_env :: "string \<Rightarrow> call_env" where
  "example_env u = \<lparr>uuid4 = u, now_request = example_now, now_filename = example_now,
     now_persist = example_now, write_ok = True\<rparr>"

definition example_metadata :: "rat MonitoringMetadata" where
  "example_metadata = \<lparr>framesProcessed = 10, peopleDetected = 2, processingTimeSeconds = 3 / 2,
     videoSource = ''cam'', inferenceTimeMs = 47 / 2, totalDetections = 3\<rparr>"

definition example_request :: "string \<Rightarrow> string option \<Rightarrow> rat SummaryLogRequest" where
  "example_request sid ts = \<lparr>session_id = sid, summary = ''ok'', metadata = example_metadata, timestamp = ts\<rparr>"

text \<open>
  The text that \<^verbatim>\<open>json.dumps\<close> gives for the record of an example call: \<open>cts\<close> is the
  JSON text of \<^verbatim>\<open>client_timestamp\<close> and \<open>ts\<close> the effective timestamp.
\<close>

definition example_line :: "string \<Rightarrow> string \<Rightarrow> string \<Rightarrow> string \<Rightarrow> string" where
  \<open>example_line lid sid cts ts =
     ''{"log_id": "'' @ lid @ ''", "session_id": "'' @ sid @
     ''", "client_timestamp": '' @ cts @
     '', "summary": "ok", "metadata": {"framesProcessed": 10, '' @
     ''"peopleDetected": 2, "processingTimeSeconds": 1.5, "videoSource": "cam", '' @
     ''"inferenceTimeMs": 23.5, "totalDetections": 3}, "timestamp": "'' @ ts @
     ''", "server_timestamp": "2026-11-04T09:05:07"}''\<close>

text \<open>The example calls: UUID, session and client timestamp.\<close>

definition example_calls :: "(string \<times> string \<times> string option) list" where
  "example_calls =
     [(''id1'', ''a'', None), (''id2'', ''a'', None), (''id3'', ''b'', None),
      (''id4'', ''a'', Some []), (''id5'', ''a'', Some ''2026-11-04T08:00:00'')]"

definition example_value :: "string \<times> string \<times> string option \<Rightarrow> rat json" where
  "example_value c =
     (case c of (lid, sid, ts) \<Rightarrow> JObj (written_record (example_env lid) (example_request sid ts)))"

definition example_text :: "string \<times> string \<times> string option \<Rightarrow> string" where
  \<open>example_text c =
     (case c of (lid, sid, ts) \<Rightarrow>
        example_line lid sid
          (case ts of None \<Rightarrow> ''null'' | Some t \<Rightarrow> ''"'' @ t @ ''"'')
          (py_or ts ''2026-11-04T09:05:07''))\<close>

text \<open>
  Three more lines that the parser of the examples knows: a record without
  \<^verbatim>\<open>metadata\<close>, a record without \<^verbatim>\<open>session_id\<close>, and (by its absence from the
  table) any other text, which is rejected.
\<close>

definition example_other_lines :: "(string \<times> rat json) list" where
  \<open>example_other_lines =
     [(''{"session_id": "a"}'' @ [CHR 0x0A], JObj [(''session_id'', JStr ''a'')]),
      (''{"summary": "ok"}'' @ [CHR 0x0A], JObj [(''summary'', JStr ''ok'')])]\<close>

definition example_library :: "rat library" where
  "example_library = \<lparr>
     json_dumps = (\<lambda>v.
       case find (\<lambda>c. example_value c = v) example_calls of
         Some c \<Rightarrow> example_text c
       | None \<Rightarrow> []),
     json_loads = (\<lambda>s.
       case find (\<lambda>c. example_text c @ [CHR 0x0A] = s) example_calls of
         Some c \<Rightarrow> Some (example_value c)
       | None \<Rightarrow> map_of example_other_lines s),
     float_add = (+),
     float_of_int = (\<lambda>i. Some (of_int i)),
     float_as_int = (\<lambda>x. if x = of_int \<lfloor>x\<rfloor> then Some \<lfloor>x\<rfloor> else None),
     exception_str = (\<lambda>e. if e = HTTPException 500 ''Failed to log summary to file''
                           then ''500: Failed to log summary to file'' else []),
     validate_str = (\<lambda>v. case v of JStr s \<Rightarrow> Some s | _ \<Rightarrow> None),
     validate_int = (\<lambda>v. case v of JInt i \<Rightarrow> Some i | _ \<Rightarrow> None),
     validate_float = (\<lambda>v. case v of JFloat x \<Rightarrow> Some x | JInt i \<Rightarrow> Some (of_int i) | _ \<Rightarrow> None)\<rparr>"

text \<open>A later clock reading on the same day.\<close>

definition example_later :: datetime where
  "example_later = \<lparr>year = 2026, month = 11, day = 4, hour = 17, minute = 30, second = 0, microsecond = 250000\<rparr>"

definition no_files :: files where
  "no_files = Map.empty"

definition day_file :: "string \<Rightarrow> files" where
  "day_file text = [get_log_filename example_now \<mapsto> text]"


section \<open>Evaluating the examples\<close>

lemmas ex_defs = example_library_def example_calls_def example_value_def example_text_def
  example_line_def example_other_lines_def written_record_def log_data_def example_env_def
  example_request_def example_metadata_def metadata_dict_def optional_str_def py_or_def

lemma ex_iso: "isoformat example_now = ''2026-11-04T09:05:07''"
  by code_simp

lemma one_line_example: "list_all (\<lambda>c. one_line (example_text c)) example_calls"
  by (simp add: one_line_def ex_defs)

lemma nonblank_example: "list_all (\<lambda>c. nonblank (example_text c @ [CHR 0x0A])) example_calls"
  by (simp add: nonblank_def py_isspace_def ex_defs)

lemma loads_example:
  "list_all (\<lambda>c. json_loads example_library (example_text c @ [CHR 0x0A]) = Some (example_value c)) example_calls"
  by (simp add: ex_defs ex_iso)

lemma dumps_example:
  "list_all (\<lambda>c. json_dumps example_library (example_value c) = example_text c) example_calls"
  by (simp add: ex_defs ex_iso)

lemmas ex_one_line = one_line_example [unfolded example_calls_def, simplified]
lemmas ex_nonblank = nonblank_example [unfolded example_calls_def, simplified]
lemmas ex_loads = loads_example [unfolded example_calls_def, simplified]
lemmas ex_dumps = dumps_example [unfolded example_calls_def, simplified]

lemma ex_fn: "get_log_filename example_now = ''logs/monitoring_logs_2026-11-04.jsonl''"
  by code_simp

lemma ex_other:
  \<open>one_line ''  ''\<close> \<open>\<not> nonblank ''  \<newline>''\<close>
  \<open>one_line ''not json''\<close> \<open>nonblank ''not json\<newline>''\<close>
  \<open>json_loads example_library ''not json\<newline>'' = None\<close>
  by (simp_all add: one_line_def nonblank_def py_isspace_def ex_defs)

lemma ex_value:
  "example_value (lid, sid, ts) = JObj (written_record (example_env lid) (example_request sid ts))"
  by (simp add: example_value_def)

lemma ex_records:
  \<open>one_line ''{"session_id": "a"}''\<close> \<open>nonblank ''{"session_id": "a"}\<newline>''\<close>
  \<open>json_loads example_library ''{"session_id": "a"}\<newline>'' = Some (JObj [(''session_id'', JStr ''a'')])\<close>
  \<open>one_line ''{"summary": "ok"}''\<close> \<open>nonblank ''{"summary": "ok"}\<newline>''\<close>
  \<open>json_loads example_library ''{"summary": "ok"}\<newline>'' = Some (JObj [(''summary'', JStr ''ok'')])\<close>
  by (simp_all add: one_line_def nonblank_def py_isspace_def ex_defs)
lemma ex_env:
  "uuid4 (example_env u) = u" "now_request (example_env u) = example_now"
  "now_filename (example_env u) = example_now" "now_persist (example_env u) = example_now"
  "write_ok (example_env u)"
  by (simp_all add: example_env_def)

lemma ex_round_trip:
  "list_all (\<lambda>c. round_trip example_library (example_value c)) example_calls"
  using one_line_example nonblank_example loads_example dumps_example
  by (simp add: round_trip_def list_all_iff)

lemmas ex_round_trips = ex_round_trip [unfolded example_calls_def, simplified, unfolded ex_value]

section \<open>Lines of a file\<close>

lemma readlines_from_line:
  "one_line l \<Longrightarrow>
   readlines_from cur (l @ CHR 0x0A # rest) = (cur @ l @ [CHR 0x0A]) # readlines_from [] rest"
  by (induction l arbitrary: cur) (auto simp add: one_line_def)

lemma readlines_join_lines:
  "list_all one_line ls \<Longrightarrow> readlines (join_lines ls) = map (\<lambda>l. l @ [CHR 0x0A]) ls"
  unfolding readlines_def join_lines_def
  by (induction ls) (simp_all add: readlines_from_line)

lemma read_logs_those:
  "read_logs L logs lines =
     (case those (map (json_loads L) (filter nonblank lines)) of
        None \<Rightarrow> Inl JSONDecodeError
      | Some vs \<Rightarrow> Inr (logs @ vs))"
  by (induction lines arbitrary: logs) (auto split: option.splits)

lemma those_map_filter_None:
  "those (map f (filter p xs)) = None \<longleftrightarrow> (\<exists>x \<in> set xs. p x \<and> f x = None)"
  by (induction xs) (auto split: option.splits)


section \<open>Statistics of a day without records\<close>

text \<open>
  C2 (as amended). When the day's file does not exist, \<^verbatim>\<open>get_stats\<close> answers without an
  error with the message \<^verbatim>\<open>No logs for today\<close> and an empty \<^verbatim>\<open>stats\<close> object, which
  has no counters at all; when the file exists and is empty, it answers without an error
  with \<^verbatim>\<open>unique_sessions = 0\<close> and \<^verbatim>\<open>total_logs = 0\<close>.
\<close>

theorem stats_without_records:
  "(fs (get_log_filename now) = None \<longrightarrow>
      get_stats L now fs =
        (Inr (JObj [(''message'', JStr ''No logs for today''), (''stats'', JObj [])]), fs))
   \<and> (fs (get_log_filename now) = Some [] \<longrightarrow>
      (\<exists>r. fst (get_stats L now fs) = Inr r) \<and>
      stats_field (fst (get_stats L now fs)) ''unique_sessions'' = Some (JInt 0) \<and>
      stats_field (fst (get_stats L now fs)) ''total_logs'' = Some (JInt 0))"
  by (simp add: get_stats_def readlines_def stats_init_def stats_field_def get_field_def)

text \<open>Both cases on concrete directories: no file, and an empty file.\<close>

theorem stats_without_records_witness:
  "no_files (get_log_filename example_now) = None \<and>
   get_stats example_library example_now no_files =
     (Inr (JObj [(''message'', JStr ''No logs for today''), (''stats'', JObj [])]), no_files) \<and>
   day_file [] (get_log_filename example_now) = Some [] \<and>
   stats_field (fst (get_stats example_library example_now (day_file []))) ''unique_sessions'' = Some (JInt 0) \<and>
   stats_field (fst (get_stats example_library example_now (day_file []))) ''total_logs'' = Some (JInt 0)"
  using stats_without_records [of no_files example_now example_library]
    stats_without_records [of "day_file []" example_now example_library]
  by (simp add: no_files_def day_file_def)

text \<open>
  C2 as stated fails when the file does not exist: the answer has neither
  \<^verbatim>\<open>unique_sessions\<close> nor \<^verbatim>\<open>total_logs\<close>.
\<close>

theorem stats_absent_file_counterexample:
  "no_files (get_log_filename example_now) = None \<and>
   fst (get_stats example_library example_now no_files) =
     Inr (JObj [(''message'', JStr ''No logs for today''), (''stats'', JObj [])]) \<and>
   stats_field (fst (get_stats example_library example_now no_files)) ''unique_sessions'' = None \<and>
   stats_field (fst (get_stats example_library example_now no_files)) ''total_logs'' = None"
  by (simp add: no_files_def get_stats_def stats_field_def get_field_def)


section \<open>The effective timestamp\<close>

text \<open>
  C3 (as amended). When \<^verbatim>\<open>log_summary\<close> succeeds on a request, the timestamp of the
  response and the \<^verbatim>\<open>timestamp\<close> field of the record appended to the day's file are
  the client's timestamp when the request carries a non-empty one, and otherwise (no
  timestamp, or the empty string) the server's clock reading in ISO format.
\<close>

theorem log_summary_timestamp:
  assumes "fst (log_summary L env request fs) = Inr response"
  shows "SummaryLogResponse.timestamp response =
           (case SummaryLogRequest.timestamp request of
              None \<Rightarrow> isoformat (now_request env)
            | Some t \<Rightarrow> if t = [] then isoformat (now_request env) else t)
       \<and> map_of (written_record env request) ''timestamp'' =
           Some (JStr (SummaryLogResponse.timestamp response))
       \<and> snd (log_summary L env request fs) (get_log_filename (now_filename env)) =
           Some ((case fs (get_log_filename (now_filename env)) of None \<Rightarrow> [] | Some text \<Rightarrow> text)
                 @ json_dumps L (JObj (written_record env request)) @ [CHR 0x0A])"
  using assms
  by (auto simp add: log_summary_def log_to_file_def written_record_def log_data_def py_or_def Let_def
      split: if_splits option.splits)

text \<open>A call with a client timestamp, on an empty directory.\<close>

theorem log_summary_timestamp_witness:
  \<open>fst (log_summary example_library (example_env ''id5'')
          (example_request ''a'' (Some ''2026-11-04T08:00:00'')) no_files) =
     Inr \<lparr>status = ''success'', message = ''Summary logged successfully'',
          log_id = ''id5'', timestamp = ''2026-11-04T08:00:00''\<rparr> \<and>
   map_of (written_record (example_env ''id5'') (example_request ''a'' (Some ''2026-11-04T08:00:00'')))
     ''timestamp'' = Some (JStr ''2026-11-04T08:00:00'') \<and>
   snd (log_summary example_library (example_env ''id5'')
          (example_request ''a'' (Some ''2026-11-04T08:00:00'')) no_files)
     ''logs/monitoring_logs_2026-11-04.jsonl'' =
     Some (example_line ''id5'' ''a'' ''"2026-11-04T08:00:00"'' ''2026-11-04T08:00:00'' @ [CHR 0x0A])\<close>
proof -
  let ?r = \<open>\<lparr>status = ''success'', message = ''Summary logged successfully'',
          log_id = ''id5'', timestamp = ''2026-11-04T08:00:00''\<rparr>\<close>
  have h: "fst (log_summary example_library (example_env ''id5'')
          (example_request ''a'' (Some ''2026-11-04T08:00:00'')) no_files) = Inr ?r"
    by (simp add: log_summary_def log_to_file_def example_env_def example_request_def py_or_def Let_def)
  have d: \<open>json_dumps example_library
      (JObj (written_record (example_env ''id5'') (example_request ''a'' (Some ''2026-11-04T08:00:00''))))
      = example_line ''id5'' ''a'' ''"2026-11-04T08:00:00"'' ''2026-11-04T08:00:00''\<close>
    by (simp add: ex_defs ex_iso)
  have e: "now_filename (example_env ''id5'') = example_now"
    by (simp add: example_env_def)
  show ?thesis
    using log_summary_timestamp [OF h] h
    by (simp add: d e ex_fn no_files_def)
qed

text \<open>
  C3 as stated fails for a request that carries the empty string as its timestamp: the
  response has the server's time.
\<close>

theorem empty_timestamp_counterexample:
  \<open>SummaryLogRequest.timestamp (example_request ''a'' (Some [])) = Some [] \<and>
   fst (log_summary example_library (example_env ''id4'') (example_request ''a'' (Some [])) no_files) =
     Inr \<lparr>status = ''success'', message = ''Summary logged successfully'',
          log_id = ''id4'', timestamp = ''2026-11-04T09:05:07''\<rparr>\<close>
  by (simp add: log_summary_def log_to_file_def example_env_def example_request_def py_or_def ex_iso Let_def)

text \<open>
  C9. For a request whose timestamp is the empty string, a call that writes the record
  succeeds with the server's clock reading in ISO format as timestamp; the record written
  has this reading as \<^verbatim>\<open>timestamp\<close> and the empty string as \<^verbatim>\<open>client_timestamp\<close>.
\<close>

theorem empty_timestamp_resolved:
  assumes "SummaryLogRequest.timestamp request = Some []" and "write_ok env"
  shows "fst (log_summary L env request fs) =
           Inr \<lparr>status = ''success'', message = ''Summary logged successfully'',
                log_id = uuid4 env, timestamp = isoformat (now_request env)\<rparr>
       \<and> map_of (written_record env request) ''timestamp'' = Some (JStr (isoformat (now_request env)))
       \<and> map_of (written_record env request) ''client_timestamp'' = Some (JStr [])
       \<and> snd (log_summary L env request fs) (get_log_filename (now_filename env)) =
           Some ((case fs (get_log_filename (now_filename env)) of None \<Rightarrow> [] | Some text \<Rightarrow> text)
                 @ json_dumps L (JObj (written_record env request)) @ [CHR 0x0A])"
  using assms
  by (simp add: log_summary_def log_to_file_def written_record_def log_data_def py_or_def Let_def
      optional_str_def)

text \<open>The call with UUID \<^verbatim>\<open>id4\<close> and an empty timestamp, on an empty directory.\<close>

theorem empty_timestamp_resolved_witness:
  \<open>SummaryLogRequest.timestamp (example_request ''a'' (Some [])) = Some [] \<and>
   write_ok (example_env ''id4'') \<and>
   fst (log_summary example_library (example_env ''id4'') (example_request ''a'' (Some [])) no_files) =
     Inr \<lparr>status = ''success'', message = ''Summary logged successfully'',
          log_id = ''id4'', timestamp = ''2026-11-04T09:05:07''\<rparr> \<and>
   map_of (written_record (example_env ''id4'') (example_request ''a'' (Some []))) ''timestamp'' =
     Some (JStr ''2026-11-04T09:05:07'') \<and>
   map_of (written_record (example_env ''id4'') (example_request ''a'' (Some []))) ''client_timestamp'' =
     Some (JStr []) \<and>
   snd (log_summary example_library (example_env ''id4'') (example_request ''a'' (Some [])) no_files)
     ''logs/monitoring_logs_2026-11-04.jsonl'' =
     Some (example_line ''id4'' ''a'' ''""'' ''2026-11-04T09:05:07'' @ [CHR 0x0A])\<close>
proof -
  have h1: "SummaryLogRequest.timestamp (example_request ''a'' (Some [])) = Some []"
    by (simp add: example_request_def)
  have h2: "write_ok (example_env ''id4'')"
    by (simp add: example_env_def)
  have d: \<open>json_dumps example_library (JObj (written_record (example_env ''id4'') (example_request ''a'' (Some []))))
      = example_line ''id4'' ''a'' ''""'' ''2026-11-04T09:05:07''\<close>
    by (simp add: ex_defs ex_iso)
  have e: "uuid4 (example_env ''id4'') = ''id4''" "now_request (example_env ''id4'') = example_now"
    "now_filename (example_env ''id4'') = example_now"
    by (simp_all add: example_env_def)
  show ?thesis
    using empty_timestamp_resolved [OF h1 h2, of example_library no_files] h1 h2
    by (simp add: d e ex_iso ex_fn no_files_def)
qed


section \<open>Reading the day's file\<close>

text \<open>
  C7. On an existing day file, \<^verbatim>\<open>get_today_logs\<close> goes through the lines, skips the
  blank ones and parses every other line as one record. It answers with all the records,
  in order, and their number, when every non-blank line parses; when a single non-blank
  line does not, the whole call fails with status 500 and no record is returned.
\<close>

theorem get_today_logs_all_or_nothing:
  assumes "fs (get_log_filename now) = Some text"
  shows "get_today_logs L now fs =
           (case those (map (json_loads L) (filter nonblank (readlines text))) of
              None \<Rightarrow> (Inl (HTTPException 500 ''Failed to read logs''), fs)
            | Some logs \<Rightarrow>
                (Inr (JObj [(''logs'', JArr logs),
                            (''count'', JInt (int (length logs))),
                            (''log_file'', JStr (get_log_filename now))]), fs))
       \<and> (those (map (json_loads L) (filter nonblank (readlines text))) = None
            \<longleftrightarrow> (\<exists>line \<in> set (readlines text). nonblank line \<and> json_loads L line = None))
       \<and> server_error (HTTPException 500 ''Failed to read logs'')"
proof (intro conjI)
  show "get_today_logs L now fs =
           (case those (map (json_loads L) (filter nonblank (readlines text))) of
              None \<Rightarrow> (Inl (HTTPException 500 ''Failed to read logs''), fs)
            | Some logs \<Rightarrow>
                (Inr (JObj [(''logs'', JArr logs),
                            (''count'', JInt (int (length logs))),
                            (''log_file'', JStr (get_log_filename now))]), fs))"
    using assms by (simp add: get_today_logs_def read_logs_those split: option.splits)
  show "those (map (json_loads L) (filter nonblank (readlines text))) = None
            \<longleftrightarrow> (\<exists>line \<in> set (readlines text). nonblank line \<and> json_loads L line = None)"
    by (rule those_map_filter_None)
  show "server_error (HTTPException 500 ''Failed to read logs'')"
    by (simp add: server_error_def)
qed

text \<open>
  A file of two records with a blank line between them, and a file whose second line is
  not JSON.
\<close>

theorem get_today_logs_all_or_nothing_witness:
  "day_file (join_lines [example_text (''id1'', ''a'', None), ''  '', example_text (''id3'', ''b'', None)])
     (get_log_filename example_now) =
     Some (join_lines [example_text (''id1'', ''a'', None), ''  '', example_text (''id3'', ''b'', None)]) \<and>
   fst (get_today_logs example_library example_now
     (day_file (join_lines [example_text (''id1'', ''a'', None), ''  '', example_text (''id3'', ''b'', None)]))) =
     Inr (JObj [(''logs'', JArr [example_value (''id1'', ''a'', None), example_value (''id3'', ''b'', None)]),
                (''count'', JInt 2),
                (''log_file'', JStr ''logs/monitoring_logs_2026-11-04.jsonl'')]) \<and>
   day_file (join_lines [example_text (''id1'', ''a'', None), ''not json''])
     (get_log_filename example_now) =
     Some (join_lines [example_text (''id1'', ''a'', None), ''not json'']) \<and>
   fst (get_today_logs example_library example_now
     (day_file (join_lines [example_text (''id1'', ''a'', None), ''not json'']))) =
     Inl (HTTPException 500 ''Failed to read logs'')"
proof -
  let ?good = "join_lines [example_text (''id1'', ''a'', None), ''  '', example_text (''id3'', ''b'', None)]"
  let ?bad = "join_lines [example_text (''id1'', ''a'', None), ''not json'']"
  have g: "day_file ?good (get_log_filename example_now) = Some ?good"
    and b: "day_file ?bad (get_log_filename example_now) = Some ?bad"
    by (simp_all add: day_file_def)
  have rg: "readlines ?good = map (\<lambda>l. l @ [CHR 0x0A])
      [example_text (''id1'', ''a'', None), ''  '', example_text (''id3'', ''b'', None)]"
    by (rule readlines_join_lines) (simp add: ex_one_line ex_other)
  have rb: "readlines ?bad = map (\<lambda>l. l @ [CHR 0x0A]) [example_text (''id1'', ''a'', None), ''not json'']"
    by (rule readlines_join_lines) (simp add: ex_one_line ex_other)
  have tg: "those (map (json_loads example_library) (filter nonblank (readlines ?good))) =
      Some [example_value (''id1'', ''a'', None), example_value (''id3'', ''b'', None)]"
    by (simp add: rg ex_nonblank ex_loads ex_other)
  have tb: "those (map (json_loads example_library) (filter nonblank (readlines ?bad))) = None"
    by (simp add: rb ex_nonblank ex_loads ex_other)
  have r1: "fst (get_today_logs example_library example_now (day_file ?good)) =
     Inr (JObj [(''logs'', JArr [example_value (''id1'', ''a'', None), example_value (''id3'', ''b'', None)]),
                (''count'', JInt 2),
                (''log_file'', JStr ''logs/monitoring_logs_2026-11-04.jsonl'')])"
    using get_today_logs_all_or_nothing [of "day_file ?good" example_now ?good example_library, OF g]
    by (simp only: tg ex_fn) simp
  have r2: "fst (get_today_logs example_library example_now (day_file ?bad)) =
     Inl (HTTPException 500 ''Failed to read logs'')"
    using get_today_logs_all_or_nothing [of "day_file ?bad" example_now ?bad example_library, OF b]
    by (simp only: tb) simp
  show ?thesis
    by (intro conjI g r1 b r2)
qed

lemma same_date_same_file:
  assumes "year now1 = year now2" and "month now1 = month now2" and "day now1 = day now2"
  shows "get_log_filename now1 = get_log_filename now2"
  using assms by (simp add: get_log_filename_def strftime_Ymd_def)

lemma get_today_logs_reads_only: "snd (get_today_logs L now fs) = fs"
  by (simp add: get_today_logs_def Let_def split: option.splits sum.splits)

lemma get_today_logs_same_file:
  assumes "get_log_filename now1 = get_log_filename now2"
  shows "fst (get_today_logs L now1 fs) = fst (get_today_logs L now2 fs)"
  using assms by (simp add: get_today_logs_def Let_def)

text \<open>
  C8. Two calls of \<^verbatim>\<open>get_today_logs\<close> in succession, each with its own clock reading,
  both readings on the same calendar date and no call of \<^verbatim>\<open>log_summary\<close> in between:
  the first call leaves every file as it is, and the second call, made on the directory
  that the first one leaves, gives the answer of the first (the same records in the same
  order, or the same error).
\<close>

theorem get_today_logs_twice:
  assumes "year now1 = year now2" and "month now1 = month now2" and "day now1 = day now2"
  shows "fst (get_today_logs L now2 (snd (get_today_logs L now1 fs))) = fst (get_today_logs L now1 fs)
       \<and> snd (get_today_logs L now1 fs) = fs
       \<and> snd (get_today_logs L now2 (snd (get_today_logs L now1 fs))) = fs"
  using get_today_logs_same_file [OF same_date_same_file [OF assms], of L fs]
  by (simp add: get_today_logs_reads_only)

text \<open>
  A call in the morning and one in the afternoon of the same day, on a day file with one
  record.
\<close>

theorem get_today_logs_twice_witness:
  "year example_now = year example_later \<and> month example_now = month example_later \<and>
   day example_now = day example_later \<and> hour example_now \<noteq> hour example_later \<and>
   fst (get_today_logs example_library example_now
          (day_file (join_lines [example_text (''id1'', ''a'', None)]))) =
     Inr (JObj [(''logs'', JArr [example_value (''id1'', ''a'', None)]),
                (''count'', JInt 1),
                (''log_file'', JStr ''logs/monitoring_logs_2026-11-04.jsonl'')]) \<and>
   fst (get_today_logs example_library example_later
          (snd (get_today_logs example_library example_now
                  (day_file (join_lines [example_text (''id1'', ''a'', None)]))))) =
     Inr (JObj [(''logs'', JArr [example_value (''id1'', ''a'', None)]),
                (''count'', JInt 1),
                (''log_file'', JStr ''logs/monitoring_logs_2026-11-04.jsonl'')]) \<and>
   snd (get_today_logs example_library example_later
          (snd (get_today_logs example_library example_now
                  (day_file (join_lines [example_text (''id1'', ''a'', None)]))))) =
     day_file (join_lines [example_text (''id1'', ''a'', None)])"
proof -
  let ?F = "join_lines [example_text (''id1'', ''a'', None)]"
  let ?r = "Inr (JObj [(''logs'', JArr [example_value (''id1'', ''a'', None)]),
                (''count'', JInt 1),
                (''log_file'', JStr ''logs/monitoring_logs_2026-11-04.jsonl'')]) :: http_error + rat json"
  have d: "year example_now = year example_later" "month example_now = month example_later"
    "day example_now = day example_later"
    by (simp_all add: example_now_def example_later_def)
  have h: "hour example_now \<noteq> hour example_later"
    by (simp add: example_now_def example_later_def)
  have r: "readlines ?F = map (\<lambda>l. l @ [CHR 0x0A]) [example_text (''id1'', ''a'', None)]"
    by (rule readlines_join_lines) (simp add: ex_one_line)
  have first: "fst (get_today_logs example_library example_now (day_file ?F)) = ?r"
    by (simp add: get_today_logs_def Let_def day_file_def read_logs_those r ex_nonblank ex_loads ex_fn)
  note twice = get_today_logs_twice [OF d, of example_library "day_file ?F"]
  from twice [THEN conjunct1] first
  have second: "fst (get_today_logs example_library example_later
          (snd (get_today_logs example_library example_now (day_file ?F)))) = ?r"
    by (rule trans)
  from twice
  have same: "snd (get_today_logs example_library example_later
          (snd (get_today_logs example_library example_now (day_file ?F)))) = day_file ?F"
    by blast
  show ?thesis
    by (intro conjI d h first second same)
qed


section \<open>Rejected requests\<close>

text \<open>A body with all the required fields is accepted, one that lacks a field is not.\<close>

lemma parse_example_body:
  "parse_SummaryLogRequest example_library
     (JObj [(''session_id'', JStr ''a''), (''summary'', JStr ''ok''),
            (''metadata'', metadata_dict example_metadata)]) =
   Some (example_request ''a'' None)"
  by (simp add: parse_SummaryLogRequest_def parse_MonitoringMetadata_def required_def optional_def
      metadata_dict_def example_metadata_def example_request_def example_library_def)

lemma parse_metadata_missing:
  assumes "k \<in> set [''framesProcessed'', ''peopleDetected'', ''processingTimeSeconds'',
                      ''videoSource'', ''inferenceTimeMs'', ''totalDetections'']"
    and "map_of m k = None"
  shows "parse_MonitoringMetadata L (JObj m) = None"
  using assms
  by (auto simp add: parse_MonitoringMetadata_def required_def split: Option.bind_splits)

lemma parse_request_missing:
  assumes "(\<exists>k \<in> set [''session_id'', ''summary'', ''metadata'']. map_of d k = None) \<or>
           (\<exists>m. map_of d ''metadata'' = Some (JObj m) \<and>
                (\<exists>k \<in> set [''framesProcessed'', ''peopleDetected'', ''processingTimeSeconds'',
                               ''videoSource'', ''inferenceTimeMs'', ''totalDetections''].
                   map_of m k = None))"
  shows "parse_SummaryLogRequest L (JObj d) = None"
  using assms
proof
  assume "\<exists>k \<in> set [''session_id'', ''summary'', ''metadata'']. map_of d k = None"
  then show ?thesis
    by (auto simp add: parse_SummaryLogRequest_def required_def split: Option.bind_splits)
next
  assume "\<exists>m. map_of d ''metadata'' = Some (JObj m) \<and>
                (\<exists>k \<in> set [''framesProcessed'', ''peopleDetected'', ''processingTimeSeconds'',
                               ''videoSource'', ''inferenceTimeMs'', ''totalDetections''].
                   map_of m k = None)"
  then obtain m k where m: "map_of d ''metadata'' = Some (JObj m)"
    and k: "k \<in> set [''framesProcessed'', ''peopleDetected'', ''processingTimeSeconds'',
                               ''videoSource'', ''inferenceTimeMs'', ''totalDetections'']"
      "map_of m k = None"
    by blast
  have "parse_MonitoringMetadata L (JObj m) = None"
    using k by (rule parse_metadata_missing)
  with m show ?thesis
    by (simp add: parse_SummaryLogRequest_def required_def split: Option.bind_splits)
qed

text \<open>
  C5. A request body that lacks \<^verbatim>\<open>session_id\<close>, \<^verbatim>\<open>summary\<close> or \<^verbatim>\<open>metadata\<close>, or
  whose metadata lacks one of its six fields, is answered with a client error (status
  422), and every file is as it was: nothing is appended.
\<close>

theorem missing_field_rejected:
  assumes "(\<exists>k \<in> set [''session_id'', ''summary'', ''metadata'']. map_of d k = None) \<or>
           (\<exists>m. map_of d ''metadata'' = Some (JObj m) \<and>
                (\<exists>k \<in> set [''framesProcessed'', ''peopleDetected'', ''processingTimeSeconds'',
                               ''videoSource'', ''inferenceTimeMs'', ''totalDetections''].
                   map_of m k = None))"
  shows "fst (post_log_summary L env (JObj d) fs) = Inl RequestValidationError
       \<and> client_error RequestValidationError
       \<and> snd (post_log_summary L env (JObj d) fs) = fs"
  using parse_request_missing [OF assms, of L]
  by (simp add: post_log_summary_def client_error_def)

text \<open>A body without \<^verbatim>\<open>session_id\<close>, with an empty day file in place.\<close>

theorem missing_field_rejected_witness:
  "map_of [(''summary'', JStr ''ok''), (''metadata'', metadata_dict example_metadata)] ''session_id'' = None \<and>
   fst (post_log_summary example_library (example_env ''id1'')
          (JObj [(''summary'', JStr ''ok''), (''metadata'', metadata_dict example_metadata)])
          (day_file [])) = Inl RequestValidationError \<and>
   status_code RequestValidationError = 422 \<and>
   snd (post_log_summary example_library (example_env ''id1'')
          (JObj [(''summary'', JStr ''ok''), (''metadata'', metadata_dict example_metadata)])
          (day_file [])) = day_file []"
proof -
  have h: "map_of [(''summary'', JStr ''ok''), (''metadata'', metadata_dict example_metadata)] ''session_id'' = None"
    by simp
  then have "(\<exists>k \<in> set [''session_id'', ''summary'', ''metadata''].
      map_of [(''summary'', JStr ''ok''), (''metadata'', metadata_dict example_metadata)] k = None) \<or>
           (\<exists>m. map_of [(''summary'', JStr ''ok''), (''metadata'', metadata_dict example_metadata)] ''metadata'' = Some (JObj m) \<and>
                (\<exists>k \<in> set [''framesProcessed'', ''peopleDetected'', ''processingTimeSeconds'',
                               ''videoSource'', ''inferenceTimeMs'', ''totalDetections''].
                   map_of m k = None))"
    by simp
  from missing_field_rejected [OF this, of example_library "example_env ''id1''" "day_file []"] h
  show ?thesis by simp
qed


section \<open>The loop of the statistics\<close>

lemma stats_loop_parsed:
  "those (map (json_loads L) (filter nonblank lines)) = Some vs \<Longrightarrow>
   stats_loop L st lines = stats_entries L st vs"
  by (induction lines arbitrary: st vs) (auto split: option.splits sum.splits)

lemma stats_loop_unparsed:
  "those (map (json_loads L) (filter nonblank lines)) = None \<Longrightarrow>
   \<exists>e. stats_loop L st lines = Inl e"
  by (induction lines arbitrary: st) (auto split: option.splits sum.splits)

lemma those_member:
  "those (map f (filter p xs)) = Some vs \<Longrightarrow> x \<in> set xs \<Longrightarrow> p x \<Longrightarrow> f x = Some v \<Longrightarrow> v \<in> set vs"
  by (induction xs arbitrary: vs) (auto split: option.splits if_splits)

lemma stats_entries_failing:
  "v \<in> set vs \<Longrightarrow> (\<And>st. \<exists>e. stats_entry L st v = Inl e) \<Longrightarrow> \<exists>e. stats_entries L st vs = Inl e"
proof (induction vs arbitrary: st)
  case Nil
  then show ?case by simp
next
  case (Cons w vs)
  show ?case
  proof (cases "stats_entry L st w")
    case (Inl e)
    then show ?thesis by simp
  next
    case (Inr st')
    with Cons.prems have "v \<in> set vs"
      by (metis Inl_Inr_False set_ConsD)
    from Cons.IH [OF this Cons.prems(2)] Inr show ?thesis
      by simp
  qed
qed

lemma stats_entry_success:
  assumes "stats_entry L st v = Inr st'"
  shows "\<exists>el. session_key L v = Inr el \<and> total_logs st' = total_logs st + 1 \<and>
              sessions st' = insert el (sessions st)"
  using assms
  by (auto simp add: stats_entry_def session_key_def split: sum.splits)

lemma stats_entries_success:
  assumes "stats_entries L st vs = Inr st'"
  shows "map (session_key L) vs = map Inr (session_values L vs) \<and>
         total_logs st' = total_logs st + int (length vs) \<and>
         sessions st' = sessions st \<union> set (session_values L vs)"
  using assms
proof (induction vs arbitrary: st)
  case Nil
  then show ?case by (simp add: session_values_def)
next
  case (Cons v vs)
  from Cons.prems obtain st1 where 1: "stats_entry L st v = Inr st1"
    and 2: "stats_entries L st1 vs = Inr st'"
    by (auto split: sum.splits)
  from stats_entry_success [OF 1] obtain el where el: "session_key L v = Inr el"
    "total_logs st1 = total_logs st + 1" "sessions st1 = insert el (sessions st)"
    by blast
  from Cons.IH [OF 2] el show ?case
    by (auto simp add: session_values_def)
qed

lemma stats_entry_written:
  assumes "total_frames st = JInt a" and "total_people st = JInt b"
  shows "stats_entry L st (JObj (written_record env r)) =
           Inr \<lparr>total_logs = total_logs st + 1, total_frames = JInt a, total_people = JInt b,
                sessions = insert (JStr (session_id r)) (sessions st)\<rparr>"
  using assms
  by (simp add: stats_entry_def getitem_def dict_get_def set_element_def py_add_def as_number_def
      written_record_def log_data_def metadata_dict_def)

lemma stats_entries_written:
  assumes "total_frames st = JInt a" and "total_people st = JInt b"
  shows "stats_entries L st (map (\<lambda>(env, r). JObj (written_record env r)) calls) =
           Inr \<lparr>total_logs = total_logs st + int (length calls), total_frames = JInt a,
                total_people = JInt b,
                sessions = sessions st \<union> (\<lambda>(env, r). JStr (session_id r)) ` set calls\<rparr>"
  using assms
proof (induction calls arbitrary: st)
  case Nil
  then show ?case by simp
next
  case (Cons c calls)
  obtain env r where c: "c = (env, r)" by (cases c)
  show ?case
    using Cons.prems
    by (simp add: c stats_entry_written [OF Cons.prems] Cons.IH)
qed

lemma get_stats_parsed:
  assumes "fs (get_log_filename now) = Some text"
    and "those (map (json_loads L) (filter nonblank (readlines text))) = Some vs"
  shows "fst (get_stats L now fs) =
     (case stats_entries L stats_init vs of
        Inl e \<Rightarrow> Inl (HTTPException 500 ''Failed to calculate stats'')
      | Inr st \<Rightarrow>
          Inr (JObj [(''stats'',
                       JObj [(''total_logs'', JInt (total_logs st)),
                             (''unique_sessions'', JInt (int (card (sessions st)))),
                             (''total_frames_processed'', total_frames st),
                             (''total_people_detected'', total_people st)]),
                      (''log_file'', JStr (get_log_filename now))]))"
  using assms
  by (simp add: get_stats_def stats_loop_parsed split: sum.splits)

lemma those_length: "those xs = Some vs \<Longrightarrow> length vs = length xs"
  by (induction xs arbitrary: vs) (auto split: option.splits)


section \<open>Counting records and sessions\<close>

lemma stats_counts_general:
  assumes "fs (get_log_filename now) = Some text"
    and "those (map (json_loads L) (filter nonblank (readlines text))) = Some vs"
    and "fst (get_stats L now fs) = Inr r"
  shows "stats_field (Inr r) ''total_logs'' = Some (JInt (int (length (filter nonblank (readlines text)))))
       \<and> stats_field (Inr r) ''unique_sessions'' = Some (JInt (int (card (set (session_values L vs)))))
       \<and> map (session_key L) vs = map Inr (session_values L vs)"
proof -
  from get_stats_parsed [where fs = fs and now = now, OF assms(1,2)] assms(3)
  obtain st where st: "stats_entries L stats_init vs = Inr st"
    and r: "r = JObj [(''stats'',
                       JObj [(''total_logs'', JInt (total_logs st)),
                             (''unique_sessions'', JInt (int (card (sessions st)))),
                             (''total_frames_processed'', total_frames st),
                             (''total_people_detected'', total_people st)]),
                      (''log_file'', JStr (get_log_filename now))]"
    by (auto split: sum.splits)
  from those_length [OF assms(2)] have len: "length vs = length (filter nonblank (readlines text))"
    by simp
  from stats_entries_success [OF st] len show ?thesis
    by (simp add: r stats_field_def get_field_def stats_init_def)
qed

lemma stats_counts_aab:
  assumes "fs (get_log_filename now) = Some text"
    and "those (map (json_loads L) (filter nonblank (readlines text))) =
           Some [JObj (written_record e1 r1), JObj (written_record e2 r2), JObj (written_record e3 r3)]"
    and "mset [session_id r1, session_id r2, session_id r3] = {#''a'', ''a'', ''b''#}"
  shows "stats_field (fst (get_stats L now fs)) ''total_logs'' = Some (JInt 3)
       \<and> stats_field (fst (get_stats L now fs)) ''unique_sessions'' = Some (JInt 2)"
proof -
  have "set [session_id r1, session_id r2, session_id r3] = set_mset {#''a'', ''a'', ''b''#}"
    using assms(3) by (metis set_mset_mset)
  then have s: "{session_id r1, session_id r2, session_id r3} = {''a'', ''b''}"
    by simp
  have "{JStr (session_id r1), JStr (session_id r2), JStr (session_id r3)} =
        (JStr ` {session_id r1, session_id r2, session_id r3} :: 'a json set)"
    by simp
  also have "\<dots> = {JStr ''a'', JStr ''b''}"
    unfolding s by simp
  finally have k: "card {JStr (session_id r1), JStr (session_id r2), JStr (session_id r3) :: 'a json} = 2"
    by simp
  have e: "stats_entries L stats_init
             (map (\<lambda>(env, r). JObj (written_record env r)) [(e1, r1), (e2, r2), (e3, r3)]) =
           Inr \<lparr>total_logs = 3, total_frames = JInt 0, total_people = JInt 0,
                sessions = {JStr (session_id r1), JStr (session_id r2), JStr (session_id r3)}\<rparr>"
    by (subst stats_entries_written [where a = 0 and b = 0]) (simp_all add: stats_init_def)
  from get_stats_parsed [where fs = fs and now = now, OF assms(1,2)] e k show ?thesis
    by (simp add: stats_field_def get_field_def)
qed

text \<open>
  C6. On an existing day file for which \<^verbatim>\<open>get_stats\<close> succeeds, \<^verbatim>\<open>total_logs\<close> is the
  number of non-blank lines and \<^verbatim>\<open>unique_sessions\<close> is the number of different
  \<^verbatim>\<open>session_id\<close> values of the parsed lines. When the non-blank lines are three records
  written by \<^verbatim>\<open>log_summary\<close> whose session ids are \<^verbatim>\<open>a\<close>, \<^verbatim>\<open>a\<close> and \<^verbatim>\<open>b\<close> in any
  order, \<^verbatim>\<open>get_stats\<close> succeeds with \<^verbatim>\<open>total_logs = 3\<close> and \<^verbatim>\<open>unique_sessions = 2\<close>.
\<close>

theorem stats_counts:
  assumes "fs (get_log_filename now) = Some text"
  shows "(those (map (json_loads L) (filter nonblank (readlines text))) = Some vs
          \<and> fst (get_stats L now fs) = Inr r \<longrightarrow>
            stats_field (Inr r) ''total_logs'' =
              Some (JInt (int (length (filter nonblank (readlines text)))))
          \<and> stats_field (Inr r) ''unique_sessions'' =
              Some (JInt (int (card (set (session_values L vs)))))
          \<and> map (session_key L) vs = map Inr (session_values L vs))
       \<and> (those (map (json_loads L) (filter nonblank (readlines text))) =
             Some [JObj (written_record e1 r1), JObj (written_record e2 r2),
                   JObj (written_record e3 r3)]
          \<and> mset [session_id r1, session_id r2, session_id r3] = {#''a'', ''a'', ''b''#} \<longrightarrow>
            stats_field (fst (get_stats L now fs)) ''total_logs'' = Some (JInt 3)
          \<and> stats_field (fst (get_stats L now fs)) ''unique_sessions'' = Some (JInt 2))"
  using stats_counts_general [where fs = fs and now = now, OF assms]
    stats_counts_aab [where fs = fs and now = now, OF assms]
  by blast

text \<open>The day file of the example calls \<^verbatim>\<open>id1\<close>, \<^verbatim>\<open>id2\<close> and \<^verbatim>\<open>id3\<close>.\<close>

theorem stats_counts_witness:
  "day_file (join_lines [example_text (''id1'', ''a'', None), example_text (''id2'', ''a'', None),
                         example_text (''id3'', ''b'', None)]) (get_log_filename example_now) =
     Some (join_lines [example_text (''id1'', ''a'', None), example_text (''id2'', ''a'', None),
                       example_text (''id3'', ''b'', None)]) \<and>
   those (map (json_loads example_library) (filter nonblank (readlines
     (join_lines [example_text (''id1'', ''a'', None), example_text (''id2'', ''a'', None),
                  example_text (''id3'', ''b'', None)])))) =
     Some [JObj (written_record (example_env ''id1'') (example_request ''a'' None)),
           JObj (written_record (example_env ''id2'') (example_request ''a'' None)),
           JObj (written_record (example_env ''id3'') (example_request ''b'' None))] \<and>
   mset [session_id (example_request ''a'' None :: rat SummaryLogRequest),
         session_id (example_request ''a'' None :: rat SummaryLogRequest),
         session_id (example_request ''b'' None :: rat SummaryLogRequest)] = {#''a'', ''a'', ''b''#} \<and>
   fst (get_stats example_library example_now
     (day_file (join_lines [example_text (''id1'', ''a'', None), example_text (''id2'', ''a'', None),
                            example_text (''id3'', ''b'', None)]))) =
     Inr (JObj [(''stats'', JObj [(''total_logs'', JInt 3), (''unique_sessions'', JInt 2),
                                  (''total_frames_processed'', JInt 0),
                                  (''total_people_detected'', JInt 0)]),
                (''log_file'', JStr ''logs/monitoring_logs_2026-11-04.jsonl'')]) \<and>
   stats_field (fst (get_stats example_library example_now
     (day_file (join_lines [example_text (''id1'', ''a'', None), example_text (''id2'', ''a'', None),
                            example_text (''id3'', ''b'', None)])))) ''total_logs'' = Some (JInt 3) \<and>
   stats_field (fst (get_stats example_library example_now
     (day_file (join_lines [example_text (''id1'', ''a'', None), example_text (''id2'', ''a'', None),
                            example_text (''id3'', ''b'', None)])))) ''unique_sessions'' = Some (JInt 2)"
proof -
  let ?F = "join_lines [example_text (''id1'', ''a'', None), example_text (''id2'', ''a'', None),
                        example_text (''id3'', ''b'', None)]"
  let ?vs = "[JObj (written_record (example_env ''id1'') (example_request ''a'' None)),
           JObj (written_record (example_env ''id2'') (example_request ''a'' None)),
           JObj (written_record (example_env ''id3'') (example_request ''b'' None))] :: rat json list"
  have f: "day_file ?F (get_log_filename example_now) = Some ?F"
    by (simp add: day_file_def)
  have r: "readlines ?F = map (\<lambda>l. l @ [CHR 0x0A])
      [example_text (''id1'', ''a'', None), example_text (''id2'', ''a'', None),
       example_text (''id3'', ''b'', None)]"
    by (rule readlines_join_lines) (simp add: ex_one_line)
  have t: "those (map (json_loads example_library) (filter nonblank (readlines ?F))) = Some ?vs"
    by (simp add: r ex_nonblank ex_loads ex_value)
  have m: "mset [session_id (example_request ''a'' None :: rat SummaryLogRequest),
         session_id (example_request ''a'' None :: rat SummaryLogRequest),
         session_id (example_request ''b'' None :: rat SummaryLogRequest)] = {#''a'', ''a'', ''b''#}"
    by (simp add: example_request_def)
  have e: "stats_entries example_library stats_init
             (map (\<lambda>(env, r). JObj (written_record env r))
                [(example_env ''id1'', example_request ''a'' None),
                 (example_env ''id2'', example_request ''a'' None),
                 (example_env ''id3'', example_request ''b'' None)]) =
           Inr \<lparr>total_logs = 3, total_frames = JInt 0, total_people = JInt 0,
                sessions = {JStr ''a'', JStr ''b''}\<rparr>"
    by (subst stats_entries_written [where a = 0 and b = 0])
      (auto simp add: stats_init_def example_request_def)
  have g: "fst (get_stats example_library example_now (day_file ?F)) =
     Inr (JObj [(''stats'', JObj [(''total_logs'', JInt 3), (''unique_sessions'', JInt 2),
                                  (''total_frames_processed'', JInt 0),
                                  (''total_people_detected'', JInt 0)]),
                (''log_file'', JStr ''logs/monitoring_logs_2026-11-04.jsonl'')])"
    using get_stats_parsed [where fs = "day_file ?F" and now = example_now, OF f t] e
    by (simp add: ex_fn)
  from stats_counts [where fs = "day_file ?F" and now = example_now, OF f,
      of example_library ?vs
        "JObj [(''stats'', JObj [(''total_logs'', JInt 3), (''unique_sessions'', JInt 2),
                                  (''total_frames_processed'', JInt 0),
                                  (''total_people_detected'', JInt 0)]),
                (''log_file'', JStr ''logs/monitoring_logs_2026-11-04.jsonl'')]"
        "example_env ''id1''" "example_request ''a'' None"
        "example_env ''id2''" "example_request ''a'' None"
        "example_env ''id3''" "example_request ''b'' None"] t m
  have c: "stats_field (fst (get_stats example_library example_now (day_file ?F))) ''total_logs'' = Some (JInt 3)"
    "stats_field (fst (get_stats example_library example_now (day_file ?F))) ''unique_sessions'' = Some (JInt 2)"
    by blast+
  show ?thesis
    by (intro conjI f t m g c)
qed


section \<open>Records without metadata or session\<close>

lemma stats_entry_no_session:
  "map_of d ''session_id'' = None \<Longrightarrow> stats_entry L st (JObj d) = Inl KeyError"
  by (simp add: stats_entry_def getitem_def)

lemma get_stats_no_session:
  assumes "fs (get_log_filename now) = Some text"
    and "line \<in> set (readlines text)" and "nonblank line"
    and "json_loads L line = Some (JObj d)" and "map_of d ''session_id'' = None"
  shows "fst (get_stats L now fs) = Inl (HTTPException 500 ''Failed to calculate stats'')"
proof (cases "those (map (json_loads L) (filter nonblank (readlines text)))")
  case None
  from stats_loop_unparsed [OF this] obtain e where "stats_loop L stats_init (readlines text) = Inl e"
    by blast
  with assms(1) show ?thesis
    by (simp add: get_stats_def)
next
  case (Some vs)
  from those_member [OF Some assms(2,3,4)] have "JObj d \<in> set vs" .
  from stats_entries_failing [OF this] stats_entry_no_session [OF assms(5)]
  obtain e where "stats_entries L stats_init vs = Inl e"
    by metis
  with get_stats_parsed [where fs = fs and now = now, OF assms(1) Some] show ?thesis
    by simp
qed

text \<open>
  C10. A parsed line without the key \<^verbatim>\<open>metadata\<close> is treated as one whose metadata is
  the empty dictionary; with a string \<^verbatim>\<open>session_id\<close> and integer totals so far, the loop
  accepts it, counts it, adds its session and leaves both totals as they are. A non-blank
  line that parses to a dictionary without the key \<^verbatim>\<open>session_id\<close> makes
  \<^verbatim>\<open>get_stats\<close> fail with status 500, wherever the line stands in the file.
\<close>

theorem stats_missing_keys:
  "(map_of d ''metadata'' = None \<longrightarrow>
      stats_entry L st (JObj d) = stats_entry L st (JObj (d @ [(''metadata'', JObj [])])))
   \<and> (map_of d ''metadata'' = None \<and> map_of d ''session_id'' = Some (JStr s)
       \<and> total_frames st = JInt a \<and> total_people st = JInt b \<longrightarrow>
      stats_entry L st (JObj d) =
        Inr \<lparr>total_logs = total_logs st + 1, total_frames = JInt a, total_people = JInt b,
             sessions = insert (JStr s) (sessions st)\<rparr>)
   \<and> (fs (get_log_filename now) = Some text \<and> line \<in> set (readlines text) \<and> nonblank line
       \<and> json_loads L line = Some (JObj d') \<and> map_of d' ''session_id'' = None \<longrightarrow>
      fst (get_stats L now fs) = Inl (HTTPException 500 ''Failed to calculate stats'')
      \<and> server_error (HTTPException 500 ''Failed to calculate stats''))"
proof (intro conjI impI)
  assume m: "map_of d ''metadata'' = None"
  have g: "getitem (JObj (d @ [(''metadata'', JObj [])])) ''session_id'' = getitem (JObj d) ''session_id''"
    by (simp add: getitem_def map_add_def split: option.splits)
  have dg: "dict_get (JObj (d @ [(''metadata'', JObj [])])) ''metadata'' (JObj []) =
            dict_get (JObj d) ''metadata'' (JObj [])"
    using m by (simp add: dict_get_def map_add_def split: option.splits)
  show "stats_entry L st (JObj d) = stats_entry L st (JObj (d @ [(''metadata'', JObj [])]))"
    by (simp only: stats_entry_def g dg)
next
  assume "map_of d ''metadata'' = None \<and> map_of d ''session_id'' = Some (JStr s)
       \<and> total_frames st = JInt a \<and> total_people st = JInt b"
  then show "stats_entry L st (JObj d) =
        Inr \<lparr>total_logs = total_logs st + 1, total_frames = JInt a, total_people = JInt b,
             sessions = insert (JStr s) (sessions st)\<rparr>"
    by (simp add: stats_entry_def getitem_def dict_get_def set_element_def py_add_def as_number_def)
next
  assume "fs (get_log_filename now) = Some text \<and> line \<in> set (readlines text) \<and> nonblank line
       \<and> json_loads L line = Some (JObj d') \<and> map_of d' ''session_id'' = None"
  then show "fst (get_stats L now fs) = Inl (HTTPException 500 ''Failed to calculate stats'')"
    using get_stats_no_session by blast
next
  show "server_error (HTTPException 500 ''Failed to calculate stats'')"
    by (simp add: server_error_def)
qed

text \<open>
  A record with only a session id, met first by the loop and after a written record, and a
  file whose second line has no session id.
\<close>

theorem stats_missing_keys_witness:
  \<open>map_of [(''session_id'', JStr ''a'')] ''metadata'' = (None :: rat json option) \<and>
   map_of [(''session_id'', JStr ''a'')] ''session_id'' = Some (JStr ''a'' :: rat json) \<and>
   total_frames (stats_init :: rat stats) = JInt 0 \<and>
   total_people (stats_init :: rat stats) = JInt 0 \<and>
   stats_entry example_library stats_init (JObj [(''session_id'', JStr ''a'')]) =
     Inr \<lparr>total_logs = 1, total_frames = JInt 0, total_people = JInt 0, sessions = {JStr ''a''}\<rparr> \<and>
   stats_entry example_library stats_init (JObj [(''session_id'', JStr ''a''), (''metadata'', JObj [])]) =
     Inr \<lparr>total_logs = 1, total_frames = JInt 0, total_people = JInt 0, sessions = {JStr ''a''}\<rparr> \<and>
   fst (get_stats example_library example_now
          (day_file (join_lines [example_text (''id1'', ''a'', None), ''{"session_id": "a"}'']))) =
     Inr (JObj [(''stats'', JObj [(''total_logs'', JInt 2), (''unique_sessions'', JInt 1),
                                  (''total_frames_processed'', JInt 0),
                                  (''total_people_detected'', JInt 0)]),
                (''log_file'', JStr ''logs/monitoring_logs_2026-11-04.jsonl'')]) \<and>
   day_file (join_lines [example_text (''id1'', ''a'', None), ''{"summary": "ok"}''])
       (get_log_filename example_now) =
     Some (join_lines [example_text (''id1'', ''a'', None), ''{"summary": "ok"}'']) \<and>
   ''{"summary": "ok"}\<newline>'' \<in>
     set (readlines (join_lines [example_text (''id1'', ''a'', None), ''{"summary": "ok"}''])) \<and>
   nonblank ''{"summary": "ok"}\<newline>'' \<and>
   json_loads example_library ''{"summary": "ok"}\<newline>'' = Some (JObj [(''summary'', JStr ''ok'')]) \<and>
   map_of [(''summary'', JStr ''ok'')] ''session_id'' = (None :: rat json option) \<and>
   fst (get_stats example_library example_now
          (day_file (join_lines [example_text (''id1'', ''a'', None), ''{"summary": "ok"}'']))) =
     Inl (HTTPException 500 ''Failed to calculate stats'')\<close>
proof -
  let ?d = "[(''session_id'', JStr ''a'')] :: (string \<times> rat json) list"
  let ?d' = "[(''summary'', JStr ''ok'')] :: (string \<times> rat json) list"
  let ?H = \<open>join_lines [example_text (''id1'', ''a'', None), ''{"session_id": "a"}'']\<close>
  let ?G = \<open>join_lines [example_text (''id1'', ''a'', None), ''{"summary": "ok"}'']\<close>
  let ?bad = \<open>''{"summary": "ok"}\<newline>''\<close>
  note inst = stats_missing_keys [of ?d example_library stats_init "''a''" 0 0
      "day_file ?G" example_now ?G ?bad ?d']
  have h1: "map_of ?d ''metadata'' = None" "map_of ?d ''session_id'' = Some (JStr ''a'')"
    "total_frames (stats_init :: rat stats) = JInt 0" "total_people (stats_init :: rat stats) = JInt 0"
    by (simp_all add: stats_init_def)
  have e1: "stats_entry example_library stats_init (JObj ?d) =
     Inr \<lparr>total_logs = 1, total_frames = JInt 0, total_people = JInt 0, sessions = {JStr ''a''}\<rparr>"
  proof -
    from inst h1 have "stats_entry example_library stats_init (JObj ?d) =
        Inr \<lparr>total_logs = total_logs (stats_init :: rat stats) + 1, total_frames = JInt 0,
             total_people = JInt 0, sessions = insert (JStr ''a'') (sessions (stats_init :: rat stats))\<rparr>"
      by blast
    then show ?thesis
      by (simp add: stats_init_def)
  qed
  have e2: "stats_entry example_library stats_init (JObj [(''session_id'', JStr ''a''), (''metadata'', JObj [])]) =
     Inr \<lparr>total_logs = 1, total_frames = JInt 0, total_people = JInt 0, sessions = {JStr ''a''}\<rparr>"
  proof -
    from inst h1 have "stats_entry example_library stats_init (JObj ?d) =
        stats_entry example_library stats_init (JObj (?d @ [(''metadata'', JObj [])]))"
      by blast
    with e1 show ?thesis
      by simp
  qed
  have fH: "day_file ?H (get_log_filename example_now) = Some ?H"
    and fG: "day_file ?G (get_log_filename example_now) = Some ?G"
    by (simp_all add: day_file_def)
  have rH: \<open>readlines ?H = [example_text (''id1'', ''a'', None) @ [CHR 0x0A], ''{"session_id": "a"}\<newline>'']\<close>
    by (subst readlines_join_lines) (simp_all add: ex_one_line ex_records)
  have rG: \<open>readlines ?G = [example_text (''id1'', ''a'', None) @ [CHR 0x0A], ?bad]\<close>
    by (subst readlines_join_lines) (simp_all add: ex_one_line ex_records)
  have tH: "those (map (json_loads example_library) (filter nonblank (readlines ?H))) =
      Some [JObj (written_record (example_env ''id1'') (example_request ''a'' None)), JObj ?d]"
    by (simp add: rH ex_nonblank ex_loads ex_records ex_value)
  have s1: "stats_entry example_library stats_init
      (JObj (written_record (example_env ''id1'') (example_request ''a'' None))) =
      Inr \<lparr>total_logs = 1, total_frames = JInt 0, total_people = JInt 0, sessions = {JStr ''a''}\<rparr>"
    by (simp add: stats_entry_written [where a = 0 and b = 0] stats_init_def example_request_def)
  have s2: "stats_entry example_library
      \<lparr>total_logs = 1, total_frames = JInt 0, total_people = JInt 0, sessions = {JStr ''a''}\<rparr>
      (JObj ?d) =
      Inr \<lparr>total_logs = 2, total_frames = JInt 0, total_people = JInt 0, sessions = {JStr ''a''}\<rparr>"
    by (simp add: stats_entry_def getitem_def dict_get_def set_element_def py_add_def as_number_def)
  have sH: "stats_entries example_library stats_init
      [JObj (written_record (example_env ''id1'') (example_request ''a'' None)), JObj ?d] =
      Inr \<lparr>total_logs = 2, total_frames = JInt 0, total_people = JInt 0, sessions = {JStr ''a''}\<rparr>"
    by (simp add: s1 s2)
  have gH: "fst (get_stats example_library example_now (day_file ?H)) =
     Inr (JObj [(''stats'', JObj [(''total_logs'', JInt 2), (''unique_sessions'', JInt 1),
                                  (''total_frames_processed'', JInt 0),
                                  (''total_people_detected'', JInt 0)]),
                (''log_file'', JStr ''logs/monitoring_logs_2026-11-04.jsonl'')])"
    using get_stats_parsed [where fs = "day_file ?H" and now = example_now, OF fH tH] sH
    by (simp add: ex_fn)
  have h3: "?bad \<in> set (readlines ?G)" "nonblank ?bad"
    "json_loads example_library ?bad = Some (JObj ?d')" "map_of ?d' ''session_id'' = None"
    by (simp_all add: rG ex_records)
  have gG: "fst (get_stats example_library example_now (day_file ?G)) =
     Inl (HTTPException 500 ''Failed to calculate stats'')"
    using inst fG h3 by blast
  show ?thesis
    by (intro conjI h1 e1 e2 gH fG h3 gG)
qed


section \<open>The sums over records written by the handler\<close>

lemma written_to_pair:
  "written_to fn (env, request) \<longleftrightarrow> write_ok env \<and> get_log_filename (now_filename env) = fn"
  by (simp add: written_to_def)

lemma snd_log_summary:
  "snd (log_summary L env request fs) =
     (if write_ok env
      then fs(get_log_filename (now_filename env) \<mapsto>
                (case fs (get_log_filename (now_filename env)) of None \<Rightarrow> [] | Some text \<Rightarrow> text)
                @ json_dumps L (JObj (written_record env request)) @ [CHR 0x0A])
      else fs)"
  by (simp add: log_summary_def log_to_file_def written_record_def Let_def)

lemma join_lines_simps:
  "join_lines [] = []" "join_lines (l # ls) = l @ CHR 0x0A # join_lines ls"
  by (simp_all add: join_lines_def)

lemma log_summaries_file:
  "log_summaries L calls fs fn =
     (if filter (written_to fn) calls = [] then fs fn
      else Some ((case fs fn of None \<Rightarrow> [] | Some text \<Rightarrow> text) @
                 join_lines (map (\<lambda>(env, request). json_dumps L (JObj (written_record env request)))
                               (filter (written_to fn) calls))))"
proof (induction calls arbitrary: fs)
  case Nil
  then show ?case by simp
next
  case (Cons c calls)
  obtain env request where c: "c = (env, request)" by (cases c)
  show ?case
    unfolding c log_summaries.simps Cons.IH snd_log_summary
    by (simp add: written_to_pair join_lines_simps)
qed

lemma those_map_Some: "those (map Some xs) = Some xs"
  by (induction xs) simp_all

lemma written_lines_parse:
  assumes "\<forall>v \<in> set vs. round_trip L v"
  shows "those (map (json_loads L) (filter nonblank (readlines (join_lines (map (json_dumps L) vs))))) =
           Some vs"
proof -
  have "list_all one_line (map (json_dumps L) vs)"
    using assms by (simp add: list_all_iff round_trip_def)
  then have r: "readlines (join_lines (map (json_dumps L) vs)) =
      map (\<lambda>l. l @ [CHR 0x0A]) (map (json_dumps L) vs)"
    by (rule readlines_join_lines)
  have "map (json_loads L) (filter nonblank (map (\<lambda>l. l @ [CHR 0x0A]) (map (json_dumps L) vs))) =
      map Some vs"
    using assms by (induction vs) (simp_all add: round_trip_def)
  then show ?thesis
    by (simp add: r those_map_Some)
qed

text \<open>
  C1. Start from a directory in which the day's file does not exist or is empty, and make
  any sequence of calls of \<^verbatim>\<open>log_summary\<close> whose records the JSON library writes and
  reads back. If the day's file exists afterwards, \<^verbatim>\<open>get_stats\<close> for that day returns
  \<^verbatim>\<open>total_frames_processed = 0\<close> and \<^verbatim>\<open>total_people_detected = 0\<close>, whatever the
  metadata of the requests: the records hold \<^verbatim>\<open>framesProcessed\<close> and
  \<^verbatim>\<open>peopleDetected\<close>, the loop asks for \<^verbatim>\<open>frames_processed\<close> and
  \<^verbatim>\<open>people_detected\<close>.
\<close>

theorem stats_sums_zero:
  assumes "\<forall>(env, request) \<in> set calls. round_trip L (JObj (written_record env request))"
    and "fs (get_log_filename now) = None \<or> fs (get_log_filename now) = Some []"
    and "log_summaries L calls fs (get_log_filename now) \<noteq> None"
  shows "stats_field (fst (get_stats L now (log_summaries L calls fs))) ''total_frames_processed'' =
           Some (JInt 0)
       \<and> stats_field (fst (get_stats L now (log_summaries L calls fs))) ''total_people_detected'' =
           Some (JInt 0)"
proof -
  let ?fn = "get_log_filename now"
  let ?ws = "filter (written_to ?fn) calls"
  let ?vs = "map (\<lambda>(env, request). JObj (written_record env request)) ?ws"
  have old: "(case fs ?fn of None \<Rightarrow> [] | Some text \<Rightarrow> text) = []"
    using assms(2) by auto
  have "\<exists>text. log_summaries L calls fs ?fn = Some text \<and>
      those (map (json_loads L) (filter nonblank (readlines text))) = Some ?vs"
  proof (cases "?ws = []")
    case True
    with assms(2,3) have "log_summaries L calls fs ?fn = Some []"
      by (auto simp add: log_summaries_file)
    with True show ?thesis
      by (simp add: readlines_def)
  next
    case False
    have content: "log_summaries L calls fs ?fn = Some (join_lines (map (json_dumps L) ?vs))"
      using False by (simp add: log_summaries_file old comp_def case_prod_unfold)
    have "\<forall>v \<in> set ?vs. round_trip L v"
      using assms(1) by auto
    from written_lines_parse [OF this] content show ?thesis
      by simp
  qed
  then obtain t where content: "log_summaries L calls fs ?fn = Some t"
    and parsed: "those (map (json_loads L) (filter nonblank (readlines t))) = Some ?vs"
    by blast
  have "stats_entries L stats_init ?vs =
      Inr \<lparr>total_logs = total_logs (stats_init :: 'a stats) + int (length ?ws),
           total_frames = JInt 0, total_people = JInt 0,
           sessions = sessions (stats_init :: 'a stats) \<union> (\<lambda>(env, r). JStr (session_id r)) ` set ?ws\<rparr>"
    by (rule stats_entries_written) (simp_all add: stats_init_def)
  with get_stats_parsed [where fs = "log_summaries L calls fs" and now = now, OF content parsed]
  show ?thesis
    by (simp add: stats_field_def get_field_def)
qed

text \<open>Two calls on an empty directory; the metadata of both has 10 frames and 2 people.\<close>

theorem stats_sums_zero_witness:
  "round_trip example_library (JObj (written_record (example_env ''id1'') (example_request ''a'' None))) \<and>
   round_trip example_library (JObj (written_record (example_env ''id3'') (example_request ''b'' None))) \<and>
   no_files (get_log_filename example_now) = None \<and>
   log_summaries example_library
     [(example_env ''id1'', example_request ''a'' None),
      (example_env ''id3'', example_request ''b'' None)] no_files (get_log_filename example_now) =
     Some (join_lines [example_text (''id1'', ''a'', None), example_text (''id3'', ''b'', None)]) \<and>
   stats_field (fst (get_stats example_library example_now
     (log_summaries example_library
        [(example_env ''id1'', example_request ''a'' None),
         (example_env ''id3'', example_request ''b'' None)] no_files)))
     ''total_frames_processed'' = Some (JInt 0) \<and>
   stats_field (fst (get_stats example_library example_now
     (log_summaries example_library
        [(example_env ''id1'', example_request ''a'' None),
         (example_env ''id3'', example_request ''b'' None)] no_files)))
     ''total_people_detected'' = Some (JInt 0)"
proof -
  let ?calls = "[(example_env ''id1'', example_request ''a'' None),
                 (example_env ''id3'', example_request ''b'' None)]"
  have r: "round_trip example_library (JObj (written_record (example_env ''id1'') (example_request ''a'' None)))"
    "round_trip example_library (JObj (written_record (example_env ''id3'') (example_request ''b'' None)))"
    by (simp_all add: ex_round_trips)
  then have a1: "\<forall>(env, request) \<in> set ?calls. round_trip example_library (JObj (written_record env request))"
    by simp
  have a2: "no_files (get_log_filename example_now) = None"
    by (simp add: no_files_def)
  have d: "json_dumps example_library (JObj (written_record (example_env ''id1'') (example_request ''a'' None)))
      = example_text (''id1'', ''a'', None)"
    "json_dumps example_library (JObj (written_record (example_env ''id3'') (example_request ''b'' None)))
      = example_text (''id3'', ''b'', None)"
    using ex_dumps by (simp_all add: ex_value)
  have c: "log_summaries example_library ?calls no_files (get_log_filename example_now) =
     Some (join_lines [example_text (''id1'', ''a'', None), example_text (''id3'', ''b'', None)])"
    by (simp add: snd_log_summary ex_env d a2 join_lines_def)
  then have a3: "log_summaries example_library ?calls no_files (get_log_filename example_now) \<noteq> None"
    by simp
  from stats_sums_zero [where fs = no_files and now = example_now, OF a1 _ a3] a2
  have z: "stats_field (fst (get_stats example_library example_now
       (log_summaries example_library ?calls no_files))) ''total_frames_processed'' = Some (JInt 0)"
    "stats_field (fst (get_stats example_library example_now
       (log_summaries example_library ?calls no_files))) ''total_people_detected'' = Some (JInt 0)"
    by blast+
  show ?thesis
    by (intro conjI r a2 c z)
qed


section \<open>Reading back an appended record\<close>

lemma readlines_from_append:
  "old \<noteq> [] \<Longrightarrow> last old = CHR 0x0A \<or> last old = CHR 0x0D \<Longrightarrow>
   rest = [] \<or> hd rest \<noteq> CHR 0x0A \<Longrightarrow>
   readlines_from cur (old @ rest) = readlines_from cur old @ readlines_from [] rest"
proof (induction cur old rule: readlines_from.induct)
  case (1 cur)
  then show ?case by simp
next
  case (2 cur c cs)
  show ?case
  proof (cases "c = CHR 0x0A")
    case True
    with 2 show ?thesis
      by (cases "cs = []") auto
  next
    case nl: False
    show ?thesis
    proof (cases "c = CHR 0x0D")
      case True
      show ?thesis
      proof (cases cs)
        case Nil
        with True nl "2.prems" show ?thesis
          by (cases rest) auto
      next
        case (Cons c' cs')
        show ?thesis
        proof (cases "c' = CHR 0x0A")
          case lf: True
          with True nl Cons 2 show ?thesis
            by (cases "cs' = []") auto
        next
          case False
          with True nl Cons 2 show ?thesis
            by auto
        qed
      qed
    next
      case False
      with nl 2 show ?thesis
        by (cases "cs = []") auto
    qed
  qed
qed

lemma readlines_append_line:
  assumes "terminated text" and "one_line l" and "l \<noteq> []"
  shows "readlines (text @ l @ [CHR 0x0A]) = readlines text @ [l @ [CHR 0x0A]]"
proof (cases "text = []")
  case True
  with assms(2) readlines_from_line [of l "[]" "[]"] show ?thesis
    by (simp add: readlines_def)
next
  case False
  from assms(2,3) have "hd (l @ [CHR 0x0A]) \<noteq> CHR 0x0A"
    by (cases l) (auto simp add: one_line_def)
  with False assms(1) have "readlines_from [] (text @ l @ [CHR 0x0A]) =
      readlines_from [] text @ readlines_from [] (l @ [CHR 0x0A])"
    by (intro readlines_from_append) (auto simp add: terminated_def)
  with assms(2) readlines_from_line [of l "[]" "[]"] show ?thesis
    by (simp add: readlines_def)
qed

lemma nonblank_not_empty:
  "nonblank (l @ [CHR 0x0A]) \<Longrightarrow> l \<noteq> []"
  by (auto simp add: nonblank_def py_isspace_def)

lemma those_snoc:
  "those (xs @ [x]) = (case those xs of None \<Rightarrow> None | Some vs \<Rightarrow> map_option (\<lambda>v. vs @ [v]) x)"
  by (induction xs) (auto split: option.splits simp add: option.map_comp comp_def)

lemma read_back_lines:
  assumes "round_trip L v" and "terminated old"
    and "those (map (json_loads L) (filter nonblank (readlines old))) = Some before"
  shows "those (map (json_loads L) (filter nonblank (readlines (old @ json_dumps L v @ [CHR 0x0A])))) =
           Some (before @ [v])"
proof -
  from assms(1) have l: "one_line (json_dumps L v)" "nonblank (json_dumps L v @ [CHR 0x0A])"
    "json_loads L (json_dumps L v @ [CHR 0x0A]) = Some v"
    by (simp_all add: round_trip_def)
  from l(2) have "json_dumps L v \<noteq> []"
    by (rule nonblank_not_empty)
  with assms(2) l(1) have "readlines (old @ json_dumps L v @ [CHR 0x0A]) =
      readlines old @ [json_dumps L v @ [CHR 0x0A]]"
    by (intro readlines_append_line)
  with l(2,3) assms(3) show ?thesis
    by (simp add: those_snoc)
qed

lemma ex_response:
  "fst (log_summary example_library (example_env u) (example_request sid None) fs) =
     Inr \<lparr>status = ''success'', message = ''Summary logged successfully'',
          log_id = u, timestamp = ''2026-11-04T09:05:07''\<rparr>"
  by (simp add: log_summary_def log_to_file_def Let_def ex_env ex_iso py_or_def example_request_def)

text \<open>
  C4 (as amended). Take a call of \<^verbatim>\<open>log_summary\<close> that succeeds, with a record that
  the JSON library writes and reads back, and a day file that did not exist, or that
  ended with a line end and whose non-blank lines all parsed. Then \<^verbatim>\<open>get_today_logs\<close>,
  called on the same day, returns the records that were there followed by the new one,
  and the new record has the request's \<^verbatim>\<open>session_id\<close>, \<^verbatim>\<open>summary\<close> and
  \<^verbatim>\<open>metadata\<close>, the \<^verbatim>\<open>log_id\<close> and the \<^verbatim>\<open>timestamp\<close> of the response, and the
  server's \<^verbatim>\<open>server_timestamp\<close>.
\<close>

theorem appended_record_is_read_back:
  assumes "fst (log_summary L env request fs) = Inr response"
    and "round_trip L (JObj (written_record env request))"
    and "get_log_filename now = get_log_filename (now_filename env)"
    and "fs (get_log_filename now) = None \<and> before = [] \<or>
         (\<exists>old. fs (get_log_filename now) = Some old \<and> terminated old \<and>
            those (map (json_loads L) (filter nonblank (readlines old))) = Some before)"
  shows "fst (get_today_logs L now (snd (log_summary L env request fs))) =
           Inr (JObj [(''logs'', JArr (before @ [JObj (written_record env request)])),
                      (''count'', JInt (int (length before) + 1)),
                      (''log_file'', JStr (get_log_filename now))])
       \<and> map_of (written_record env request) ''session_id'' = Some (JStr (session_id request))
       \<and> map_of (written_record env request) ''summary'' = Some (JStr (summary request))
       \<and> map_of (written_record env request) ''metadata'' = Some (metadata_dict (metadata request))
       \<and> map_of (written_record env request) ''log_id'' = Some (JStr (log_id response))
       \<and> map_of (written_record env request) ''timestamp'' =
           Some (JStr (SummaryLogResponse.timestamp response))
       \<and> map_of (written_record env request) ''server_timestamp'' =
           Some (JStr (isoformat (now_persist env)))"
proof -
  let ?fn = "get_log_filename now"
  let ?v = "JObj (written_record env request)"
  let ?old = "case fs ?fn of None \<Rightarrow> [] | Some old \<Rightarrow> old"
  from assms(1) have ok: "write_ok env"
    and response: "response = \<lparr>status = ''success'', message = ''Summary logged successfully'',
        log_id = uuid4 env,
        timestamp = py_or (SummaryLogRequest.timestamp request) (isoformat (now_request env))\<rparr>"
    by (auto simp add: log_summary_def log_to_file_def Let_def split: if_splits)
  from ok assms(3) have new: "snd (log_summary L env request fs) ?fn =
      Some (?old @ json_dumps L ?v @ [CHR 0x0A])"
    by (simp add: snd_log_summary)
  from assms(4) have "terminated ?old \<and>
      those (map (json_loads L) (filter nonblank (readlines ?old))) = Some before"
    by (auto simp add: terminated_def readlines_def)
  with read_back_lines [OF assms(2)]
  have "those (map (json_loads L) (filter nonblank (readlines (?old @ json_dumps L ?v @ [CHR 0x0A])))) =
      Some (before @ [?v])"
    by blast
  with new have "fst (get_today_logs L now (snd (log_summary L env request fs))) =
           Inr (JObj [(''logs'', JArr (before @ [?v])),
                      (''count'', JInt (int (length before) + 1)),
                      (''log_file'', JStr ?fn)])"
    by (simp add: get_today_logs_def read_logs_those)
  then show ?thesis
    by (simp add: response written_record_def log_data_def)
qed

text \<open>The call \<^verbatim>\<open>id3\<close> on a day file that holds the record of the call \<^verbatim>\<open>id1\<close>.\<close>

theorem appended_record_is_read_back_witness:
  "fst (log_summary example_library (example_env ''id3'') (example_request ''b'' None)
          (day_file (join_lines [example_text (''id1'', ''a'', None)]))) =
     Inr \<lparr>status = ''success'', message = ''Summary logged successfully'',
          log_id = ''id3'', timestamp = ''2026-11-04T09:05:07''\<rparr> \<and>
   round_trip example_library (JObj (written_record (example_env ''id3'') (example_request ''b'' None))) \<and>
   get_log_filename example_now = get_log_filename (now_filename (example_env ''id3'')) \<and>
   day_file (join_lines [example_text (''id1'', ''a'', None)]) (get_log_filename example_now) =
     Some (join_lines [example_text (''id1'', ''a'', None)]) \<and>
   terminated (join_lines [example_text (''id1'', ''a'', None)]) \<and>
   those (map (json_loads example_library)
            (filter nonblank (readlines (join_lines [example_text (''id1'', ''a'', None)])))) =
     Some [JObj (written_record (example_env ''id1'') (example_request ''a'' None))] \<and>
   fst (get_today_logs example_library example_now
          (snd (log_summary example_library (example_env ''id3'') (example_request ''b'' None)
                  (day_file (join_lines [example_text (''id1'', ''a'', None)]))))) =
     Inr (JObj [(''logs'', JArr [JObj (written_record (example_env ''id1'') (example_request ''a'' None)),
                                 JObj (written_record (example_env ''id3'') (example_request ''b'' None))]),
                (''count'', JInt 2),
                (''log_file'', JStr ''logs/monitoring_logs_2026-11-04.jsonl'')]) \<and>
   map_of (written_record (example_env ''id3'') (example_request ''b'' None)) ''session_id'' =
     Some (JStr ''b'') \<and>
   map_of (written_record (example_env ''id3'') (example_request ''b'' None)) ''summary'' =
     Some (JStr ''ok'') \<and>
   map_of (written_record (example_env ''id3'') (example_request ''b'' None)) ''metadata'' =
     Some (metadata_dict example_metadata) \<and>
   map_of (written_record (example_env ''id3'') (example_request ''b'' None)) ''log_id'' =
     Some (JStr ''id3'')"
proof -
  let ?F = "join_lines [example_text (''id1'', ''a'', None)]"
  let ?before = "[JObj (written_record (example_env ''id1'') (example_request ''a'' None))] :: rat json list"
  let ?r = "\<lparr>status = ''success'', message = ''Summary logged successfully'',
          log_id = ''id3'', timestamp = ''2026-11-04T09:05:07''\<rparr>"
  have a1: "fst (log_summary example_library (example_env ''id3'') (example_request ''b'' None)
          (day_file ?F)) = Inr ?r"
    by (rule ex_response)
  have a2: "round_trip example_library (JObj (written_record (example_env ''id3'') (example_request ''b'' None)))"
    by (simp add: ex_round_trips)
  have a3: "get_log_filename example_now = get_log_filename (now_filename (example_env ''id3''))"
    by (simp add: ex_env)
  have f: "day_file ?F (get_log_filename example_now) = Some ?F"
    by (simp add: day_file_def)
  have t: "terminated ?F"
    by (simp add: terminated_def join_lines_def)
  have r: "readlines ?F = map (\<lambda>l. l @ [CHR 0x0A]) [example_text (''id1'', ''a'', None)]"
    by (rule readlines_join_lines) (simp add: ex_one_line)
  have p: "those (map (json_loads example_library) (filter nonblank (readlines ?F))) = Some ?before"
    by (simp add: r ex_nonblank ex_loads ex_value)
  from f t p have a4: "day_file ?F (get_log_filename example_now) = None \<and> ?before = [] \<or>
         (\<exists>old. day_file ?F (get_log_filename example_now) = Some old \<and> terminated old \<and>
            those (map (json_loads example_library) (filter nonblank (readlines old))) = Some ?before)"
    by blast
  note c = appended_record_is_read_back [where fs = "day_file ?F" and now = example_now, OF a1 a2 a3 a4]
  have c1: "fst (get_today_logs example_library example_now
          (snd (log_summary example_library (example_env ''id3'') (example_request ''b'' None)
                  (day_file ?F)))) =
     Inr (JObj [(''logs'', JArr [JObj (written_record (example_env ''id1'') (example_request ''a'' None)),
                                 JObj (written_record (example_env ''id3'') (example_request ''b'' None))]),
                (''count'', JInt 2),
                (''log_file'', JStr ''logs/monitoring_logs_2026-11-04.jsonl'')])"
    using c by (simp add: ex_fn)
  have c2: "map_of (written_record (example_env ''id3'') (example_request ''b'' None)) ''session_id'' =
     Some (JStr ''b'')"
    "map_of (written_record (example_env ''id3'') (example_request ''b'' None)) ''summary'' =
     Some (JStr ''ok'')"
    "map_of (written_record (example_env ''id3'') (example_request ''b'' None)) ''metadata'' =
     Some (metadata_dict example_metadata)"
    "map_of (written_record (example_env ''id3'') (example_request ''b'' None)) ''log_id'' =
     Some (JStr ''id3'')"
    using c by (simp_all add: example_request_def)
  show ?thesis
    by (intro conjI a1 a2 a3 f t p c1 c2)
qed

text \<open>
  C4 as stated fails when the day file already holds a line that does not parse: the
  append succeeds, and \<^verbatim>\<open>get_today_logs\<close> then fails with status 500 and returns no
  record.
\<close>

theorem malformed_line_counterexample:
  "fst (log_summary example_library (example_env ''id1'') (example_request ''a'' None)
          (day_file (join_lines [''not json'']))) =
     Inr \<lparr>status = ''success'', message = ''Summary logged successfully'',
          log_id = ''id1'', timestamp = ''2026-11-04T09:05:07''\<rparr> \<and>
   round_trip example_library (JObj (written_record (example_env ''id1'') (example_request ''a'' None))) \<and>
   fst (get_today_logs example_library example_now
          (snd (log_summary example_library (example_env ''id1'') (example_request ''a'' None)
                  (day_file (join_lines [''not json'']))))) =
     Inl (HTTPException 500 ''Failed to read logs'')"
proof -
  have d: "json_dumps example_library (JObj (written_record (example_env ''id1'') (example_request ''a'' None)))
      = example_text (''id1'', ''a'', None)"
    using ex_dumps by (simp add: ex_value)
  have n: "snd (log_summary example_library (example_env ''id1'') (example_request ''a'' None)
                  (day_file (join_lines [''not json''])))
             (get_log_filename example_now) =
           Some (join_lines [''not json'', example_text (''id1'', ''a'', None)])"
    by (simp add: snd_log_summary ex_env d day_file_def join_lines_def)
  have r: "readlines (join_lines [''not json'', example_text (''id1'', ''a'', None)]) =
      map (\<lambda>l. l @ [CHR 0x0A]) [''not json'', example_text (''id1'', ''a'', None)]"
    by (rule readlines_join_lines) (simp add: ex_one_line ex_other)
  have "fst (get_today_logs example_library example_now
          (snd (log_summary example_library (example_env ''id1'') (example_request ''a'' None)
                  (day_file (join_lines [''not json'']))))) =
     Inl (HTTPException 500 ''Failed to read logs'')"
    by (simp add: get_today_logs_def n read_logs_those r ex_other ex_nonblank ex_loads)
  then show ?thesis
    by (simp add: ex_response ex_round_trips)
qed

end
